theory Spec2Isabelle
  imports Main "HOL-Library.Sublist"
begin

section \<open>The Worksection client: request building, signing and response handling\<close>

text \<open>
  The development embeds the class \<^verbatim>\<open>WorksectionClient\<close> of \<^verbatim>\<open>src/worksectionClient.ts\<close>
  (the revision with attachments and \<^verbatim>\<open>sourceUrl\<close>) and the \<^verbatim>\<open>post_task\<close> tool handler
  of \<^verbatim>\<open>src/index.ts\<close> (the revision that passes \<^verbatim>\<open>sourceUrl\<close> on).

  Strings are byte strings: a \<^typ>\<open>string\<close> stands for the UTF-8 encoding of a
  well-formed JavaScript string, so that concatenation is \<open>@\<close> and the
  form-urlencoded serialiser works byte by byte. A \<^verbatim>\<open>Buffer\<close> is the list of its
  bytes. JavaScript numbers are kept abstract (the type variable \<open>'n\<close>) together
  with the function that prints them. What the program asks of its platform (the
  digest, the URL parser, the base64 decoder, the network) is a parameter of every
  function that uses it. Logging is left out.
\<close>

subsection \<open>Strings\<close>

type_synonym bytes = "char list"

text \<open>\<^verbatim>\<open>Array.prototype.join\<close> on a list of strings.\<close>

fun join :: "string \<Rightarrow> string list \<Rightarrow> string" where
  "join sep [] = []"
| "join sep [x] = x"
| "join sep (x # y # ys) = x @ sep @ join sep (y # ys)"

text \<open>The decimal numeral of an array index, as a template literal prints it.\<close>

definition digit_char :: "nat \<Rightarrow> char" where
  "digit_char d = ''0123456789'' ! d"

function decimal :: "nat \<Rightarrow> string" where
  "decimal n = (if n < 10 then [digit_char n] else decimal (n div 10) @ [digit_char (n mod 10)])"
  by pat_completeness auto
termination
  by (relation "measure id") auto

declare decimal.simps [simp del]

text \<open>A string is truthy when it is present and not empty.\<close>

fun truthy :: "string option \<Rightarrow> bool" where
  "truthy None = False"
| "truthy (Some s) = (s \<noteq> [])"

subsection \<open>Base64 decoding\<close>

text \<open>
  \<^verbatim>\<open>Buffer.from(s, 'base64')\<close> as Node decodes a string: a character of the base64
  alphabet or of its URL-safe variant gives six bits, every other character is skipped,
  decoding stops at the first \<open>=\<close>, and the bits that do not fill a byte are dropped. It
  throws on no string.
\<close>

definition unbase64 :: "char \<Rightarrow> nat option" where
  "unbase64 c =
     (let n = of_char c :: nat in
      if 65 \<le> n \<and> n \<le> 90 then Some (n - 65)
      else if 97 \<le> n \<and> n \<le> 122 then Some (n - 71)
      else if 48 \<le> n \<and> n \<le> 57 then Some (n + 4)
      else if c = CHR ''+'' \<or> c = CHR ''-'' then Some 62
      else if c = CHR ''/'' \<or> c = CHR ''_'' then Some 63
      else None)"

fun base64_decode_group :: "nat list \<Rightarrow> bytes" where
  "base64_decode_group (a # b # c # d # rest) =
     char_of (a * 4 + b div 16) # char_of (b mod 16 * 16 + c div 4) # char_of (c mod 4 * 64 + d)
       # base64_decode_group rest"
| "base64_decode_group [a, b, c] = [char_of (a * 4 + b div 16), char_of (b mod 16 * 16 + c div 4)]"
| "base64_decode_group [a, b] = [char_of (a * 4 + b div 16)]"
| "base64_decode_group [a] = []"
| "base64_decode_group [] = []"

definition base64_decode :: "string \<Rightarrow> bytes" where
  "base64_decode s =
     base64_decode_group (List.map_filter unbase64 (takeWhile (\<lambda>c. c \<noteq> CHR ''='') s))"

subsection \<open>URLSearchParams\<close>

text \<open>
  A \<^verbatim>\<open>URLSearchParams\<close> object is its list of name/value pairs. \<^verbatim>\<open>toString\<close> is the
  application/x-www-form-urlencoded serialiser of the URL standard: a space becomes
  \<open>+\<close>, the bytes of \<open>A-Z a-z 0-9 * - . _\<close> stay, every other byte becomes
  \<open>%XX\<close> with upper-case hexadecimal digits; a pair is \<open>name=value\<close> and pairs are
  joined with \<open>&\<close>.
\<close>

type_synonym URLSearchParams = "(string \<times> string) list"

definition append :: "URLSearchParams \<Rightarrow> string \<Rightarrow> string \<Rightarrow> URLSearchParams" where
  "append encoded name v = encoded @ [(name, v)]"

definition urlencoded_plain :: "char \<Rightarrow> bool" where
  "urlencoded_plain c =
     (c \<in> set ''ABCDEFGHIJKLMNOPQRSTUVWXYZabcdefghijklmnopqrstuvwxyz0123456789*-._'')"

definition hex_digit :: "nat \<Rightarrow> char" where
  "hex_digit d = ''0123456789ABCDEF'' ! d"

definition urlencode_byte :: "char \<Rightarrow> string" where
  "urlencode_byte c =
     (if c = CHR '' '' then ''+''
      else if urlencoded_plain c then [c]
      else [CHR ''%'', hex_digit (of_char c div 16), hex_digit (of_char c mod 16)])"

definition urlencode :: "string \<Rightarrow> string" where
  "urlencode s = concat (map urlencode_byte s)"

definition serialize_pair :: "string \<times> string \<Rightarrow> string" where
  "serialize_pair p = urlencode (fst p) @ ''='' @ urlencode (snd p)"

definition toString :: "URLSearchParams \<Rightarrow> string" where
  "toString encoded = join ''&'' (map serialize_pair encoded)"

subsection \<open>Parameter values and objects\<close>

datatype 'n Primitive = Str string | Num 'n | Bool bool

datatype 'n ParamValue = Prim "'n Primitive" | Arr "'n Primitive list" | Null | Undefined

text \<open>
  A \<^verbatim>\<open>RequestParams\<close> object is the list of its own properties in the order in which
  they were created (keys distinct). \<^verbatim>\<open>Object.entries\<close> and the spread \<^verbatim>\<open>{...params}\<close>
  enumerate own properties as ECMAScript orders them: first the keys that are array
  indices (canonical decimal numerals below \<open>2^32 - 1\<close>) in ascending numeric order,
  then the other string keys in creation order.
\<close>

type_synonym 'n RequestParams = "(string \<times> 'n ParamValue) list"

definition is_digit :: "char \<Rightarrow> bool" where
  "is_digit c = (c \<in> set ''0123456789'')"

definition digit_value :: "char \<Rightarrow> int" where
  "digit_value c = of_char c - 48"

definition numeral_value :: "string \<Rightarrow> int" where
  "numeral_value s = foldl (\<lambda>acc c. 10 * acc + digit_value c) 0 s"

definition is_array_index :: "string \<Rightarrow> bool" where
  "is_array_index k =
     (k \<noteq> [] \<and> list_all is_digit k \<and> (if hd k = CHR ''0'' then k = ''0'' else True)
      \<and> numeral_value k < 2 ^ 32 - 1)"

definition Object_entries :: "(string \<times> 'v) list \<Rightarrow> (string \<times> 'v) list" where
  "Object_entries obj =
     sort_key (\<lambda>p. numeral_value (fst p)) (filter (\<lambda>p. is_array_index (fst p)) obj)
     @ filter (\<lambda>p. \<not> is_array_index (fst p)) obj"

subsection \<open>Attachments, options, configuration\<close>

text \<open>
  The arguments of the \<^verbatim>\<open>post_task\<close> tool (\<^verbatim>\<open>createTaskArgsSchema\<close> and
  \<^verbatim>\<open>attachmentSchema\<close> of \<^verbatim>\<open>index.ts\<close>); the data of an attachment is base64 text.
\<close>

record AttachmentArg =
  filename :: string
  data :: "string option"
  sourceUrl :: "string option"
  contentType :: "string option"

record 'n CreateTaskArgs =
  projectId :: string
  title :: string
  description :: "string option"
  parentTaskId :: "string option"
  assigneeEmail :: "string option"
  priority :: "'n option"
  startDate :: "string option"
  dueDate :: "string option"
  checklist :: "string list option"
  subscribeEmails :: "string list option"
  visibilityEmails :: "string list option"
  mentionEmails :: "string list option"
  estimateHours :: "'n option"
  budget :: "'n option"
  tags :: "string list option"
  attachments :: "AttachmentArg list option"

text \<open>The types of \<^verbatim>\<open>worksectionClient.ts\<close>.\<close>

record AttachmentPayload =
  field :: string
  filename :: string
  data :: bytes
  contentType :: "string option"

record AttachmentInput =
  field :: string
  filename :: string
  contentType :: "string option"
  data :: "bytes option"
  sourceUrl :: "string option"

datatype Method = GET | POST

record 'n CallOptions =
  "method" :: "Method option"
  params :: "'n RequestParams option"
  attachments :: "AttachmentInput list option"

record WorksectionConfig =
  accountUrl :: string
  apiKey :: string
  slackBotToken :: "string option"

subsection \<open>Requests, responses, errors\<close>

text \<open>
  A \<^verbatim>\<open>URL\<close> object is the serialisation of the parsed URL without its query, and
  its \<^verbatim>\<open>search\<close>. The body of a request is a string or a \<^verbatim>\<open>FormData\<close>, whose entries
  are text fields and files (a \<^verbatim>\<open>Blob\<close> with its type, and a file name).
\<close>

record URL =
  href :: string
  search :: string

record Blob =
  blob_bytes :: bytes
  blob_type :: string

datatype FormEntry = FormField string string | FormFile string Blob string

datatype Body = BodyString string | BodyFormData "FormEntry list"

datatype FetchInput = UrlString string | UrlObject URL

text \<open>One call of \<^verbatim>\<open>fetch(input, init)\<close>; a missing method means GET.\<close>

record FetchCall =
  input :: FetchInput
  init_method :: "Method option"
  init_headers :: "(string \<times> string) list"
  init_body :: "Body option"

text \<open>
  The JSON envelope as \<^verbatim>\<open>call\<close> types it: five optional fields, and the remaining
  fields of the object (name and JSON text).
\<close>

record 'n Envelope =
  status :: "string option"
  message :: "string option"
  status_code :: "'n option"
  message_details :: "string option"
  test :: "string option"
  other_fields :: "(string \<times> string) list"

text \<open>
  The errors a call can end with: the client's own \<^verbatim>\<open>WorksectionApiError\<close> (message
  and optional \<^verbatim>\<open>statusCode\<close>), the \<^verbatim>\<open>TypeError\<close> of \<^verbatim>\<open>new URL\<close> on an invalid
  account URL or of reading a property of \<^verbatim>\<open>null\<close>, the \<^verbatim>\<open>SyntaxError\<close> of
  \<^verbatim>\<open>response.json()\<close>, and the plain \<^verbatim>\<open>Error\<close> the tool handler throws.
\<close>

datatype 'n error =
    WorksectionApiError string "'n option"
  | TypeError string
  | SyntaxError string
  | Error string

fun error_message :: "'n error \<Rightarrow> string" where
  "error_message (WorksectionApiError m c) = m"
| "error_message (TypeError m) = m"
| "error_message (SyntaxError m) = m"
| "error_message (Error m) = m"

text \<open>
  A \<^verbatim>\<open>Response\<close>: \<^verbatim>\<open>ok\<close> is the flag \<^verbatim>\<open>fetch\<close> sets for a status from 200 to 299;
  \<^verbatim>\<open>json\<close> is the envelope that \<^verbatim>\<open>call\<close> reads from the body, or the error that reading
  it raises: the \<^verbatim>\<open>SyntaxError\<close> with which \<^verbatim>\<open>response.json()\<close> rejects a body that is
  not JSON, the \<^verbatim>\<open>TypeError\<close> of \<^verbatim>\<open>json.status\<close> on the body \<^verbatim>\<open>null\<close>.
\<close>

record 'n Response =
  ok :: bool
  http_status :: 'n
  statusText :: string
  arrayBuffer :: bytes
  json :: "'n error + 'n Envelope"

datatype 'n FetchOutcome = Rejected string | Resolved "'n Response"

text \<open>
  The platform functions the client calls, taken as parameters: printing a number
  (\<^verbatim>\<open>String(n)\<close>), the hexadecimal MD5 digest of a string
  (\<^verbatim>\<open>crypto.createHash('md5').update(s).digest('hex')\<close>), \<^verbatim>\<open>String.prototype.trim\<close>,
  \<^verbatim>\<open>new URL(path, base)\<close> (the left injection, with the message, when it throws),
  \<^verbatim>\<open>Buffer.from(s, 'base64')\<close> (\<open>None\<close> when it throws, which the decoder of Node,
  \<open>base64_decode\<close>, never does) and the network: \<^verbatim>\<open>fetch\<close>
  answers the \<open>k\<close>-th request of a run (counted from 0) with a rejection, of which it
  gives the message, or with a response.
\<close>

record 'n platform =
  String_number :: "'n \<Rightarrow> string"
  md5_hex :: "string \<Rightarrow> string"
  trim :: "string \<Rightarrow> string"
  URL_new :: "string \<Rightarrow> string \<Rightarrow> string + string"
  Buffer_from_base64 :: "string \<Rightarrow> bytes option"
  fetch :: "nat \<Rightarrow> FetchCall \<Rightarrow> 'n FetchOutcome"

subsection \<open>prepareParams, coerceToString, buildParamState\<close>

text \<open>
  The spread \<^verbatim>\<open>{ ...(params ?? {}) }\<close> creates the properties of the copy in
  enumeration order.
\<close>

definition prepareParams :: "'n RequestParams option \<Rightarrow> 'n RequestParams" where
  "prepareParams ps = Object_entries (case ps of None \<Rightarrow> [] | Some obj \<Rightarrow> obj)"

fun coerceToString :: "'n platform \<Rightarrow> 'n Primitive \<Rightarrow> string" where
  "coerceToString pf (Bool b) = (if b then ''1'' else ''0'')"
| "coerceToString pf (Str s) = s"
| "coerceToString pf (Num n) = String_number pf n"

text \<open>
  \<^verbatim>\<open>appendParam\<close> is the closure of \<^verbatim>\<open>buildParamState\<close> that appends to \<^verbatim>\<open>encoded\<close>;
  here it returns the updated list. An array element is a \<^verbatim>\<open>Primitive\<close>, so the
  recursive call on it takes the last branch.
\<close>

function appendParam ::
  "'n platform \<Rightarrow> URLSearchParams \<Rightarrow> string \<Rightarrow> 'n ParamValue \<Rightarrow> URLSearchParams" where
  "appendParam pf encoded key Undefined = encoded"
| "appendParam pf encoded key Null = encoded"
| "appendParam pf encoded key (Arr items) =
     foldl (\<lambda>enc (index, item).
              appendParam pf enc (key @ ''['' @ decimal index @ '']'') (Prim item))
       encoded (enumerate 0 items)"
| "appendParam pf encoded key (Prim v) = append encoded key (coerceToString pf v)"
  by pat_completeness auto
termination
  by (relation "measure (\<lambda>(pf, encoded, key, v). case v of Arr items \<Rightarrow> 1 | _ \<Rightarrow> 0)") auto

definition buildParamState ::
  "'n platform \<Rightarrow> string \<Rightarrow> 'n RequestParams \<Rightarrow> URLSearchParams \<times> string" where
  "buildParamState pf action ps =
     (let encoded = appendParam pf [] ''action'' (Prim (Str action));
          encoded = foldl (\<lambda>enc (key, v). appendParam pf enc key v) encoded (Object_entries ps)
      in (encoded, toString encoded))"

subsection \<open>The earlier revision of buildParamState\<close>

text \<open>
  The source file also holds an earlier revision of the client, without attachments.
  Its \<^verbatim>\<open>buildParamState\<close> collects the pairs first, puts the elements of a list under
  the key itself, and joins the pairs as they are, not url-encoded, for the digest. The
  properties below are about the later revision, which the specification describes.
\<close>

definition buildParamState_earlier ::
  "'n platform \<Rightarrow> string \<Rightarrow> 'n RequestParams \<Rightarrow> URLSearchParams \<times> string" where
  "buildParamState_earlier pf action ps =
     (let pairs = foldl (\<lambda>pairs (key, v).
                     case v of
                       Undefined \<Rightarrow> pairs
                     | Null \<Rightarrow> pairs
                     | Arr items \<Rightarrow> foldl (\<lambda>pairs item. pairs @ [(key, coerceToString pf item)]) pairs items
                     | Prim p \<Rightarrow> pairs @ [(key, coerceToString pf p)])
                   [(''action'', action)] (Object_entries ps);
          encoded = foldl (\<lambda>enc (key, v). append enc key v) [] pairs;
          raw = join ''&'' (map (\<lambda>(key, v). key @ ''='' @ v) pairs)
      in (encoded, raw))"

subsection \<open>fetchRemoteAttachment, prepareAttachments\<close>

text \<open>
  Every function that may use the network takes the log of the \<^verbatim>\<open>fetch\<close> calls made so
  far and returns it extended; an error is the left injection.
\<close>

type_synonym log = "FetchCall list"

definition fetchRemoteAttachment ::
  "'n platform \<Rightarrow> WorksectionConfig \<Rightarrow> string \<Rightarrow> log \<Rightarrow> log \<times> ('n error + bytes)" where
  "fetchRemoteAttachment pf config url lg =
     (let headers = (case slackBotToken config of
                       Some token \<Rightarrow> if token \<noteq> [] then [(''Authorization'', ''Bearer '' @ token)] else []
                     | None \<Rightarrow> []);
          request = \<lparr>input = UrlString url, init_method = None, init_headers = headers,
                     init_body = None\<rparr>
      in case fetch pf (length lg) request of
           Rejected msg \<Rightarrow>
             (lg @ [request],
              Inl (WorksectionApiError (''Failed to download attachment from '' @ url @ '': '' @ msg) None))
         | Resolved response \<Rightarrow>
             if \<not> ok response then
               (lg @ [request],
                Inl (WorksectionApiError
                  (''Downloading attachment failed ('' @ String_number pf (http_status response) @ ''): ''
                     @ statusText response) None))
             else if length (arrayBuffer response) = 0 then
               (lg @ [request], Inl (WorksectionApiError (''Attachment at '' @ url @ '' is empty.'') None))
             else (lg @ [request], Inr (arrayBuffer response)))"

text \<open>
  One turn of the loop of \<^verbatim>\<open>prepareAttachments\<close>. A \<^verbatim>\<open>Buffer\<close> is an object and so always
  truthy; a \<^verbatim>\<open>sourceUrl\<close> is truthy when it is a non-empty string, and so is a content type.
  \<^verbatim>\<open>resolveBuffer\<close> is the variable \<^verbatim>\<open>buffer\<close> after the download step.
\<close>

definition resolveBuffer ::
  "'n platform \<Rightarrow> WorksectionConfig \<Rightarrow> AttachmentInput \<Rightarrow> log
     \<Rightarrow> log \<times> ('n error + bytes option)" where
  "resolveBuffer pf config attachment lg =
     (case data attachment of
        Some buffer \<Rightarrow> (lg, Inr (Some buffer))
      | None \<Rightarrow>
          (case sourceUrl attachment of
             None \<Rightarrow> (lg, Inr None)
           | Some url \<Rightarrow>
               if url = [] then (lg, Inr None)
               else (case fetchRemoteAttachment pf config url lg of
                       (lg', Inl e) \<Rightarrow> (lg', Inl e)
                     | (lg', Inr buffer) \<Rightarrow> (lg', Inr (Some buffer)))))"

definition prepareAttachment ::
  "'n platform \<Rightarrow> WorksectionConfig \<Rightarrow> AttachmentInput \<Rightarrow> log
     \<Rightarrow> log \<times> ('n error + AttachmentPayload)" where
  "prepareAttachment pf config attachment lg =
     (if data attachment \<noteq> None \<and> truthy (sourceUrl attachment) then
        (lg, Inl (WorksectionApiError
           (''Attachment \"'' @ filename attachment @ ''\" cannot define both data and sourceUrl.'') None))
      else
        case resolveBuffer pf config attachment lg of
          (lg', Inl e) \<Rightarrow> (lg', Inl e)
        | (lg', Inr None) \<Rightarrow>
            (lg', Inl (WorksectionApiError
               (''Attachment \"'' @ filename attachment
                  @ ''\" must include base64 data or a download URL (sourceUrl).'') None))
        | (lg', Inr (Some buffer)) \<Rightarrow>
            (lg', Inr \<lparr>AttachmentPayload.field = field attachment,
                       AttachmentPayload.filename = filename attachment,
                       AttachmentPayload.data = buffer,
                       AttachmentPayload.contentType =
                         (if truthy (contentType attachment) then contentType attachment else None)\<rparr>))"

fun prepareAttachments_loop ::
  "'n platform \<Rightarrow> WorksectionConfig \<Rightarrow> AttachmentInput list \<Rightarrow> AttachmentPayload list \<Rightarrow> log
     \<Rightarrow> log \<times> ('n error + AttachmentPayload list)" where
  "prepareAttachments_loop pf config [] payloads lg = (lg, Inr payloads)"
| "prepareAttachments_loop pf config (attachment # rest) payloads lg =
     (case prepareAttachment pf config attachment lg of
        (lg', Inl e) \<Rightarrow> (lg', Inl e)
      | (lg', Inr payload) \<Rightarrow> prepareAttachments_loop pf config rest (payloads @ [payload]) lg')"

definition prepareAttachments ::
  "'n platform \<Rightarrow> WorksectionConfig \<Rightarrow> AttachmentInput list option \<Rightarrow> log
     \<Rightarrow> log \<times> ('n error + AttachmentPayload list)" where
  "prepareAttachments pf config atts lg =
     (case atts of
        None \<Rightarrow> (lg, Inr [])
      | Some as \<Rightarrow> if length as = 0 then (lg, Inr []) else prepareAttachments_loop pf config as [] lg)"

subsection \<open>call\<close>

definition ADMIN_PATH :: string where
  "ADMIN_PATH = ''api/admin/v2''"

text \<open>
  The \<^verbatim>\<open>FormData\<close> of a call with attachments: one text field per pair of \<^verbatim>\<open>encoded\<close>,
  then one file per attachment.
\<close>

definition formData :: "URLSearchParams \<Rightarrow> AttachmentPayload list \<Rightarrow> FormEntry list" where
  "formData encoded atts =
     map (\<lambda>(key, v). FormField key v) encoded
     @ map (\<lambda>attachment.
              FormFile (AttachmentPayload.field attachment)
                \<lparr>blob_bytes = AttachmentPayload.data attachment,
                 blob_type = (case AttachmentPayload.contentType attachment of
                                Some t \<Rightarrow> t | None \<Rightarrow> ''application/octet-stream'')\<rparr>
                (AttachmentPayload.filename attachment)) atts"

text \<open>
  Lines 44 to 90 of \<^verbatim>\<open>call\<close>: from the resolved attachments, the requested method
  \<^verbatim>\<open>options?.method\<close> and the copied parameters to the arguments of \<^verbatim>\<open>fetch\<close>. The
  \<^verbatim>\<open>search\<close> of the endpoint is kept without its leading question mark; the empty string
  is no query.
\<close>

definition signedParams ::
  "'n platform \<Rightarrow> WorksectionConfig \<Rightarrow> string \<Rightarrow> 'n RequestParams \<Rightarrow> URLSearchParams" where
  "signedParams pf config action ps =
     (let (encoded, raw) = buildParamState pf action ps;
          hash = md5_hex pf (raw @ apiKey config)
      in append encoded ''hash'' hash)"

definition buildRequest ::
  "'n platform \<Rightarrow> WorksectionConfig \<Rightarrow> string \<Rightarrow> Method option \<Rightarrow> 'n RequestParams
     \<Rightarrow> AttachmentPayload list \<Rightarrow> 'n error + FetchCall" where
  "buildRequest pf config action requested ps atts =
     (let hasAttachments = (length atts > 0);
          m = (if hasAttachments then POST
               else case requested of Some m' \<Rightarrow> m' | None \<Rightarrow> GET);
          encoded = signedParams pf config action ps
      in case URL_new pf ADMIN_PATH (accountUrl config) of
           Inl msg \<Rightarrow> Inl (TypeError msg)
         | Inr h \<Rightarrow>
             let endpoint = \<lparr>href = h, search = []\<rparr>;
                 headers = [(''Accept'', ''application/json'')];
                 endpoint = (if m = GET \<or> hasAttachments
                             then endpoint\<lparr>search := toString encoded\<rparr> else endpoint);
                 (body, headers) =
                   (if m = GET then (None, headers)
                    else if hasAttachments then (Some (BodyFormData (formData encoded atts)), headers)
                    else (Some (BodyString (toString encoded)),
                          headers @ [(''Content-Type'', ''application/x-www-form-urlencoded'')]))
             in Inr \<lparr>input = UrlObject endpoint, init_method = Some m,
                     init_headers = headers, init_body = body\<rparr>)"

text \<open>Lines 131 to 141: the message of the error raised for an envelope that is not ok.\<close>

definition errorMessage :: "'n platform \<Rightarrow> 'n Envelope \<Rightarrow> string" where
  "errorMessage pf j =
     (case message j of Some m \<Rightarrow> m | None \<Rightarrow> ''Worksection API returned an error'')
     @ (case message_details j of
          Some d \<Rightarrow> if d \<noteq> [] then '' (field: '' @ d @ '')'' else []
        | None \<Rightarrow> [])
     @ (case test j of
          Some t \<Rightarrow> if t \<noteq> [] then ''. Expected format: '' @ trim pf t else []
        | None \<Rightarrow> [])"

text \<open>Lines 109 to 146: from the response to the result of \<^verbatim>\<open>call\<close>.\<close>

definition interpretResponse :: "'n platform \<Rightarrow> 'n Response \<Rightarrow> 'n error + 'n Envelope" where
  "interpretResponse pf response =
     (if \<not> ok response then
        Inl (WorksectionApiError
          (''Worksection API HTTP '' @ String_number pf (http_status response) @ '': ''
             @ statusText response)
          (Some (http_status response)))
      else case json response of
             Inl e \<Rightarrow> Inl e
           | Inr j \<Rightarrow>
               if status j \<noteq> Some ''ok''
               then Inl (WorksectionApiError (errorMessage pf j) (status_code j))
               else Inr j)"

text \<open>Lines 44 to 147: \<^verbatim>\<open>call\<close> from the resolved attachments and the copied parameters on.\<close>

definition sendRequest ::
  "'n platform \<Rightarrow> WorksectionConfig \<Rightarrow> string \<Rightarrow> Method option \<Rightarrow> 'n RequestParams
     \<Rightarrow> AttachmentPayload list \<Rightarrow> log \<Rightarrow> log \<times> ('n error + 'n Envelope)" where
  "sendRequest pf config action requested ps atts lg =
     (case buildRequest pf config action requested ps atts of
        Inl e \<Rightarrow> (lg, Inl e)
      | Inr request \<Rightarrow>
          (case fetch pf (length lg) request of
             Rejected msg \<Rightarrow>
               (lg @ [request],
                Inl (WorksectionApiError (''Failed to reach Worksection API: '' @ msg) None))
           | Resolved response \<Rightarrow> (lg @ [request], interpretResponse pf response)))"

definition call ::
  "'n platform \<Rightarrow> WorksectionConfig \<Rightarrow> string \<Rightarrow> 'n CallOptions option \<Rightarrow> log
     \<Rightarrow> log \<times> ('n error + 'n Envelope)" where
  "call pf config action options lg =
     (case prepareAttachments pf config (Option.bind options attachments) lg of
        (lg', Inl e) \<Rightarrow> (lg', Inl e)
      | (lg', Inr atts) \<Rightarrow>
          sendRequest pf config action (Option.bind options method)
            (prepareParams (Option.bind options params)) atts lg')"

subsection \<open>The post_task tool handler\<close>

text \<open>
  The handler of \<^verbatim>\<open>index.ts\<close> (the revision whose attachments may carry a
  \<^verbatim>\<open>sourceUrl\<close>). It answers with \<^verbatim>\<open>respond\<close> (here the JSON text of the task) or, for
  every error thrown in its \<^verbatim>\<open>try\<close> block, with \<^verbatim>\<open>respondError\<close> (the message of the
  error, \<^verbatim>\<open>isError\<close> set).
\<close>

datatype ToolResult = Respond string | RespondError string

definition commaSeparated :: "string list option \<Rightarrow> string option" where
  "commaSeparated vs =
     (case vs of None \<Rightarrow> None | Some xs \<Rightarrow> if length xs \<noteq> 0 then Some (join '', '' xs) else None)"

text \<open>The match of \<^verbatim>\<open>/^(\d{4})-(\d{2})-(\d{2})$/\<close>: year, month, day.\<close>

definition isoMatch :: "string \<Rightarrow> (string \<times> string \<times> string) option" where
  "isoMatch s =
     (if length s = 10 \<and> list_all is_digit (take 4 s) \<and> s ! 4 = CHR ''-''
         \<and> list_all is_digit (take 2 (drop 5 s)) \<and> s ! 7 = CHR ''-''
         \<and> list_all is_digit (drop 8 s)
      then Some (take 4 s, take 2 (drop 5 s), drop 8 s) else None)"

definition formatWsDate :: "'n platform \<Rightarrow> string option \<Rightarrow> string option" where
  "formatWsDate pf raw =
     (case raw of
        None \<Rightarrow> None
      | Some r \<Rightarrow>
          if r = [] then None
          else (let trimmed = trim pf r in
                (case isoMatch trimmed of
                   Some (year, month, day) \<Rightarrow> Some (day @ ''.'' @ month @ ''.'' @ year)
                 | None \<Rightarrow> Some trimmed)))"

definition optString :: "string option \<Rightarrow> 'n ParamValue" where
  "optString v = (case v of None \<Rightarrow> Undefined | Some s \<Rightarrow> Prim (Str s))"

definition optNumber :: "'n option \<Rightarrow> 'n ParamValue" where
  "optNumber v = (case v of None \<Rightarrow> Undefined | Some n \<Rightarrow> Prim (Num n))"

definition taskParams :: "'n platform \<Rightarrow> 'n CreateTaskArgs \<Rightarrow> 'n RequestParams" where
  "taskParams pf args =
     [(''id_project'', Prim (Str (projectId args))),
      (''title'', Prim (Str (title args))),
      (''text'', optString (description args)),
      (''id_parent'', optString (parentTaskId args)),
      (''email_user_to'', optString (assigneeEmail args)),
      (''priority'', optNumber (priority args)),
      (''datestart'', optString (formatWsDate pf (startDate args))),
      (''dateend'', optString (formatWsDate pf (dueDate args))),
      (''subscribe'', optString (commaSeparated (subscribeEmails args))),
      (''hidden'', optString (commaSeparated (visibilityEmails args))),
      (''mention'', optString (commaSeparated (mentionEmails args))),
      (''max_time'', optNumber (estimateHours args)),
      (''max_money'', optNumber (budget args)),
      (''tags'', optString (commaSeparated (tags args))),
      (''todo'', (case checklist args of
                    None \<Rightarrow> Undefined
                  | Some items \<Rightarrow> if length items \<noteq> 0 then Arr (map Str items) else Undefined))]"

text \<open>The variable \<^verbatim>\<open>buffer\<close> of the callback of \<^verbatim>\<open>args.attachments.map\<close>.\<close>

definition decodeData :: "'n platform \<Rightarrow> AttachmentArg \<Rightarrow> 'n error + bytes option" where
  "decodeData pf attachment =
     (case AttachmentArg.data attachment of
        None \<Rightarrow> Inr None
      | Some d \<Rightarrow>
          if d = [] then Inr None
          else (case Buffer_from_base64 pf d of
                  None \<Rightarrow>
                    Inl (Error (''Attachment \"'' @ AttachmentArg.filename attachment
                                  @ ''\" data must be valid base64.''))
                | Some buffer \<Rightarrow>
                    if length buffer = 0
                    then Inl (Error (''Attachment \"'' @ AttachmentArg.filename attachment
                                       @ ''\" is empty or not valid base64 data.''))
                    else Inr (Some buffer)))"

definition convertAttachment ::
  "'n platform \<Rightarrow> nat \<Rightarrow> AttachmentArg \<Rightarrow> 'n error + AttachmentInput" where
  "convertAttachment pf index attachment =
     (case decodeData pf attachment of
        Inl e \<Rightarrow> Inl e
      | Inr buffer \<Rightarrow>
          let payload = \<lparr>field = ''attach['' @ decimal index @ '']'',
                         filename = AttachmentArg.filename attachment,
                         contentType = (if truthy (AttachmentArg.contentType attachment)
                                        then AttachmentArg.contentType attachment else None),
                         data = None, sourceUrl = None\<rparr>
          in (case buffer of
                Some b \<Rightarrow> Inr (payload\<lparr>data := Some b\<rparr>)
              | None \<Rightarrow>
                  if truthy (AttachmentArg.sourceUrl attachment)
                  then Inr (payload\<lparr>sourceUrl := AttachmentArg.sourceUrl attachment\<rparr>)
                  else Inl (Error (''Attachment \"'' @ AttachmentArg.filename attachment
                                     @ ''\" requires base64 data or sourceUrl.''))))"

text \<open>\<^verbatim>\<open>args.attachments.map(callback)\<close>: the first error thrown by the callback ends it.\<close>

fun convertAttachments ::
  "'n platform \<Rightarrow> nat \<Rightarrow> AttachmentArg list \<Rightarrow> 'n error + AttachmentInput list" where
  "convertAttachments pf index [] = Inr []"
| "convertAttachments pf index (attachment # rest) =
     (case convertAttachment pf index attachment of
        Inl e \<Rightarrow> Inl e
      | Inr payload \<Rightarrow>
          (case convertAttachments pf (Suc index) rest of
             Inl e \<Rightarrow> Inl e
           | Inr payloads \<Rightarrow> Inr (payload # payloads)))"

definition taskAttachments ::
  "'n platform \<Rightarrow> 'n CreateTaskArgs \<Rightarrow> 'n error + AttachmentInput list option" where
  "taskAttachments pf args =
     (case CreateTaskArgs.attachments args of
        None \<Rightarrow> Inr None
      | Some as \<Rightarrow>
          if length as = 0 then Inr None
          else (case convertAttachments pf 0 as of Inl e \<Rightarrow> Inl e | Inr ps \<Rightarrow> Inr (Some ps)))"

definition respond_task :: "'n Envelope \<Rightarrow> ToolResult" where
  "respond_task response =
     Respond (case map_of (other_fields response) ''data'' of
                None \<Rightarrow> ''{}''
              | Some d \<Rightarrow> if d = ''null'' then ''{}'' else d)"

definition respondError :: "'n error \<Rightarrow> ToolResult" where
  "respondError e = RespondError (error_message e)"

definition post_task ::
  "'n platform \<Rightarrow> WorksectionConfig \<Rightarrow> 'n CreateTaskArgs \<Rightarrow> log \<Rightarrow> log \<times> ToolResult" where
  "post_task pf config args lg =
     (let ps = taskParams pf args in
      case taskAttachments pf args of
        Inl e \<Rightarrow> (lg, respondError e)
      | Inr atts \<Rightarrow>
          (let callOptions = \<lparr>method = None, params = Some ps, attachments = None\<rparr>;
               callOptions = (case atts of
                                None \<Rightarrow> callOptions
                              | Some as \<Rightarrow>
                                  if length as \<noteq> 0
                                  then callOptions\<lparr>method := Some POST, attachments := Some as\<rparr>
                                  else callOptions)
           in (case call pf config ''post_task'' (Some callOptions) lg of
                 (lg', Inl e) \<Rightarrow> (lg', respondError e)
               | (lg', Inr response) \<Rightarrow> (lg', respond_task response))))"

subsection \<open>The objects of a call in a store\<close>

text \<open>
  For the question which objects a call writes to, the objects the caller hands over
  live in a store: the parameter object and the arrays among its values, the array of
  attachment descriptors, the descriptors and their buffers. \<^verbatim>\<open>prepareParams\<close> and
  \<^verbatim>\<open>prepareAttachments\<close> are the functions of \<^verbatim>\<open>call\<close> that are handed these objects;
  here they run on the store, where a new object is allocated at a fresh address and
  an assignment to a property or a \<^verbatim>\<open>push\<close> overwrites the object at its address.
\<close>

type_synonym addr = nat

text \<open>
  A value of a parameter object is a primitive or the reference to an array. An
  \<^verbatim>\<open>AttachmentInput\<close> object holds \<^verbatim>\<open>field\<close>, \<^verbatim>\<open>filename\<close>, \<^verbatim>\<open>contentType\<close>, the reference
  \<^verbatim>\<open>data\<close> to a buffer and \<^verbatim>\<open>sourceUrl\<close>; an \<^verbatim>\<open>AttachmentPayload\<close> object holds \<^verbatim>\<open>field\<close>,
  \<^verbatim>\<open>filename\<close>, the reference \<^verbatim>\<open>data\<close> and \<^verbatim>\<open>contentType\<close>, in this order.
\<close>

datatype 'n StoredValue = RefPrim "'n Primitive" | RefArr addr | RefNull | RefUndefined

datatype 'n object =
    ParamsObject "(string \<times> 'n StoredValue) list"
  | PrimitiveArray "'n Primitive list"
  | BufferObject bytes
  | InputObject string string "string option" "addr option" "string option"
  | PayloadObject string string addr "string option"
  | ObjectArray "addr list"

record 'n store =
  heap :: "addr \<Rightarrow> 'n object option"
  next_free :: addr

definition alloc :: "'n store \<Rightarrow> 'n object \<Rightarrow> 'n store \<times> addr" where
  "alloc s obj = (s\<lparr>heap := (heap s)(next_free s \<mapsto> obj), next_free := Suc (next_free s)\<rparr>, next_free s)"

definition assign :: "'n store \<Rightarrow> addr \<Rightarrow> 'n object \<Rightarrow> 'n store" where
  "assign s a obj = s\<lparr>heap := (heap s)(a \<mapsto> obj)\<rparr>"

text \<open>Reading the values of the functional model back from the store.\<close>

definition readValue :: "'n store \<Rightarrow> 'n StoredValue \<Rightarrow> 'n ParamValue" where
  "readValue s v =
     (case v of
        RefPrim p \<Rightarrow> Prim p
      | RefArr a \<Rightarrow> (case heap s a of Some (PrimitiveArray xs) \<Rightarrow> Arr xs | _ \<Rightarrow> Undefined)
      | RefNull \<Rightarrow> Null
      | RefUndefined \<Rightarrow> Undefined)"

definition readParams :: "'n store \<Rightarrow> addr option \<Rightarrow> 'n RequestParams option" where
  "readParams s r =
     (case r of
        None \<Rightarrow> None
      | Some a \<Rightarrow> (case heap s a of
                     Some (ParamsObject es) \<Rightarrow> Some (map (\<lambda>(k, v). (k, readValue s v)) es)
                   | _ \<Rightarrow> None))"

definition readBuffer :: "'n store \<Rightarrow> addr \<Rightarrow> bytes" where
  "readBuffer s a = (case heap s a of Some (BufferObject bs) \<Rightarrow> bs | _ \<Rightarrow> [])"

definition readInput :: "'n store \<Rightarrow> addr \<Rightarrow> AttachmentInput" where
  "readInput s a =
     (case heap s a of
        Some (InputObject fld name ct dt su) \<Rightarrow>
          \<lparr>field = fld, filename = name, contentType = ct,
           data = map_option (readBuffer s) dt, sourceUrl = su\<rparr>
      | _ \<Rightarrow> \<lparr>field = [], filename = [], contentType = None, data = None, sourceUrl = None\<rparr>)"

definition readInputs :: "'n store \<Rightarrow> addr option \<Rightarrow> AttachmentInput list option" where
  "readInputs s r =
     (case r of
        None \<Rightarrow> None
      | Some a \<Rightarrow> (case heap s a of
                     Some (ObjectArray ds) \<Rightarrow> Some (map (readInput s) ds)
                   | _ \<Rightarrow> None))"

definition readPayload :: "'n store \<Rightarrow> addr \<Rightarrow> AttachmentPayload" where
  "readPayload s a =
     (case heap s a of
        Some (PayloadObject fld name dt ct) \<Rightarrow>
          \<lparr>AttachmentPayload.field = fld, AttachmentPayload.filename = name,
           AttachmentPayload.data = readBuffer s dt, AttachmentPayload.contentType = ct\<rparr>
      | _ \<Rightarrow> \<lparr>AttachmentPayload.field = [], AttachmentPayload.filename = [],
              AttachmentPayload.data = [], AttachmentPayload.contentType = None\<rparr>)"

definition readPayloads :: "'n store \<Rightarrow> addr \<Rightarrow> AttachmentPayload list" where
  "readPayloads s a =
     (case heap s a of Some (ObjectArray ps) \<Rightarrow> map (readPayload s) ps | _ \<Rightarrow> [])"

text \<open>
  \<^verbatim>\<open>prepareParams\<close> on the store: the spread allocates the copy; the arrays among the
  values are shared with the original.
\<close>

definition prepareParams_st :: "'n store \<Rightarrow> addr option \<Rightarrow> 'n store \<times> addr" where
  "prepareParams_st s ps =
     alloc s (ParamsObject (Object_entries
       (case ps of
          None \<Rightarrow> []
        | Some a \<Rightarrow> (case heap s a of Some (ParamsObject es) \<Rightarrow> es | _ \<Rightarrow> []))))"

text \<open>
  \<^verbatim>\<open>prepareAttachments\<close> on the store. A downloaded body becomes a new buffer
  (\<^verbatim>\<open>Buffer.from(arrayBuffer)\<close>); the payload is a new object whose \<^verbatim>\<open>data\<close> is the
  descriptor's own buffer when the data is inline; \<^verbatim>\<open>payload.contentType = ...\<close> and
  \<^verbatim>\<open>payloads.push(payload)\<close> are assignments.
\<close>

definition resolveBuffer_st ::
  "'n platform \<Rightarrow> WorksectionConfig \<Rightarrow> 'n store \<Rightarrow> addr option \<Rightarrow> string option \<Rightarrow> log
     \<Rightarrow> 'n store \<times> log \<times> ('n error + addr option)" where
  "resolveBuffer_st pf config s dt su lg =
     (case dt of
        Some buffer \<Rightarrow> (s, lg, Inr (Some buffer))
      | None \<Rightarrow>
          (case su of
             None \<Rightarrow> (s, lg, Inr None)
           | Some url \<Rightarrow>
               if url = [] then (s, lg, Inr None)
               else (case fetchRemoteAttachment pf config url lg of
                       (lg', Inl e) \<Rightarrow> (s, lg', Inl e)
                     | (lg', Inr bs) \<Rightarrow>
                         (let (s', buffer) = alloc s (BufferObject bs)
                          in (s', lg', Inr (Some buffer))))))"

definition prepareAttachment_st ::
  "'n platform \<Rightarrow> WorksectionConfig \<Rightarrow> 'n store \<Rightarrow> addr \<Rightarrow> log
     \<Rightarrow> 'n store \<times> log \<times> ('n error + addr)" where
  "prepareAttachment_st pf config s attachment lg =
     (case heap s attachment of
        Some (InputObject fld name ct dt su) \<Rightarrow>
          if dt \<noteq> None \<and> truthy su then
            (s, lg, Inl (WorksectionApiError
               (''Attachment \"'' @ name @ ''\" cannot define both data and sourceUrl.'') None))
          else
            (case resolveBuffer_st pf config s dt su lg of
               (s', lg', Inl e) \<Rightarrow> (s', lg', Inl e)
             | (s', lg', Inr None) \<Rightarrow>
                 (s', lg', Inl (WorksectionApiError
                    (''Attachment \"'' @ name
                       @ ''\" must include base64 data or a download URL (sourceUrl).'') None))
             | (s', lg', Inr (Some buffer)) \<Rightarrow>
                 (let (s1, payload) = alloc s' (PayloadObject fld name buffer None);
                      s2 = (if truthy ct then assign s1 payload (PayloadObject fld name buffer ct)
                            else s1)
                  in (s2, lg', Inr payload)))
      | _ \<Rightarrow> (s, lg, Inl (TypeError ''not an attachment'')))"

definition push :: "'n store \<Rightarrow> addr \<Rightarrow> addr \<Rightarrow> 'n store" where
  "push s array x =
     (case heap s array of
        Some (ObjectArray xs) \<Rightarrow> assign s array (ObjectArray (xs @ [x]))
      | _ \<Rightarrow> s)"

fun prepareAttachments_loop_st ::
  "'n platform \<Rightarrow> WorksectionConfig \<Rightarrow> 'n store \<Rightarrow> addr list \<Rightarrow> addr \<Rightarrow> log
     \<Rightarrow> 'n store \<times> log \<times> ('n error + addr)" where
  "prepareAttachments_loop_st pf config s [] payloads lg = (s, lg, Inr payloads)"
| "prepareAttachments_loop_st pf config s (attachment # rest) payloads lg =
     (case prepareAttachment_st pf config s attachment lg of
        (s', lg', Inl e) \<Rightarrow> (s', lg', Inl e)
      | (s', lg', Inr payload) \<Rightarrow>
          prepareAttachments_loop_st pf config (push s' payloads payload) rest payloads lg')"

definition prepareAttachments_st ::
  "'n platform \<Rightarrow> WorksectionConfig \<Rightarrow> 'n store \<Rightarrow> addr option \<Rightarrow> log
     \<Rightarrow> 'n store \<times> log \<times> ('n error + addr)" where
  "prepareAttachments_st pf config s atts lg =
     (case atts of
        None \<Rightarrow> (let (s', empty) = alloc s (ObjectArray []) in (s', lg, Inr empty))
      | Some a \<Rightarrow>
          (case heap s a of
             Some (ObjectArray ds) \<Rightarrow>
               if length ds = 0 then (let (s', empty) = alloc s (ObjectArray []) in (s', lg, Inr empty))
               else (let (s', payloads) = alloc s (ObjectArray [])
                     in prepareAttachments_loop_st pf config s' ds payloads lg)
           | _ \<Rightarrow> (s, lg, Inl (TypeError ''not an array''))))"

text \<open>
  \<^verbatim>\<open>call\<close> on the store. After \<^verbatim>\<open>prepareAttachments\<close> and \<^verbatim>\<open>prepareParams\<close> it reads the
  payloads and the copied parameters and assigns only to objects it has created itself
  (\<^verbatim>\<open>encoded\<close>, \<^verbatim>\<open>endpoint\<close>, \<^verbatim>\<open>headers\<close>, \<^verbatim>\<open>form\<close>, \<^verbatim>\<open>init\<close>), which are values here.
\<close>

definition call_st ::
  "'n platform \<Rightarrow> WorksectionConfig \<Rightarrow> string \<Rightarrow> Method option \<Rightarrow> addr option \<Rightarrow> addr option
     \<Rightarrow> 'n store \<Rightarrow> log \<Rightarrow> 'n store \<times> log \<times> ('n error + 'n Envelope)" where
  "call_st pf config action requested ps atts s lg =
     (case prepareAttachments_st pf config s atts lg of
        (s1, lg1, Inl e) \<Rightarrow> (s1, lg1, Inl e)
      | (s1, lg1, Inr payloads) \<Rightarrow>
          (let (s2, copy) = prepareParams_st s1 ps
           in case sendRequest pf config action requested
                     (case readParams s2 (Some copy) of Some es \<Rightarrow> es | None \<Rightarrow> [])
                     (readPayloads s2 payloads) lg1 of
                (lg2, r) \<Rightarrow> (s2, lg2, r)))"

text \<open>
  The inputs of a call in a store: every reference is to an allocated object of the
  right kind, and no object lies at or beyond the next free address.
\<close>

definition store_ok :: "'n store \<Rightarrow> bool" where
  "store_ok s = (\<forall>a. next_free s \<le> a \<longrightarrow> heap s a = None)"

definition buffer_at :: "'n store \<Rightarrow> addr \<Rightarrow> addr \<Rightarrow> bool" where
  "buffer_at s n b = (b < n \<and> (case heap s b of Some (BufferObject bs) \<Rightarrow> True | _ \<Rightarrow> False))"

definition input_at :: "'n store \<Rightarrow> addr \<Rightarrow> addr \<Rightarrow> bool" where
  "input_at s n d =
     (d < n \<and> (case heap s d of
                 Some (InputObject fld name ct dt su) \<Rightarrow>
                   (case dt of None \<Rightarrow> True | Some b \<Rightarrow> buffer_at s n b)
               | _ \<Rightarrow> False))"

definition inputs_at :: "'n store \<Rightarrow> addr option \<Rightarrow> bool" where
  "inputs_at s atts =
     (case atts of
        None \<Rightarrow> True
      | Some a \<Rightarrow>
          a < next_free s
          \<and> (case heap s a of
                Some (ObjectArray ds) \<Rightarrow> list_all (input_at s (next_free s)) ds
              | _ \<Rightarrow> False))"

definition value_at :: "'n store \<Rightarrow> 'n StoredValue \<Rightarrow> bool" where
  "value_at s v =
     (case v of
        RefArr r \<Rightarrow> r < next_free s
                   \<and> (case heap s r of Some (PrimitiveArray xs) \<Rightarrow> True | _ \<Rightarrow> False)
      | _ \<Rightarrow> True)"

definition params_at :: "'n store \<Rightarrow> addr option \<Rightarrow> bool" where
  "params_at s ps =
     (case ps of
        None \<Rightarrow> True
      | Some a \<Rightarrow>
          a < next_free s
          \<and> (case heap s a of
                Some (ParamsObject es) \<Rightarrow> list_all (\<lambda>e. value_at s (snd e)) es
              | _ \<Rightarrow> False))"

definition same_below :: "addr \<Rightarrow> 'n store \<Rightarrow> 'n store \<Rightarrow> bool" where
  "same_below n s s' = (\<forall>b < n. heap s' b = heap s b)"

definition payload_at :: "'n store \<Rightarrow> addr \<Rightarrow> addr \<Rightarrow> bool" where
  "payload_at s lo p =
     (lo < p \<and> p < next_free s
      \<and> (case heap s p of
            Some (PayloadObject fld name b ct) \<Rightarrow>
              b \<noteq> lo \<and> b < next_free s
              \<and> (case heap s b of Some (BufferObject bs) \<Rightarrow> True | _ \<Rightarrow> False)
          | _ \<Rightarrow> False))"

subsection \<open>The notions of the specification\<close>

text \<open>
  The specification's Canonical Query: the pair of the action, then for every entry of
  the parameter map, in the order given, nothing for a null or absent value, one pair
  for a scalar (a boolean as \<open>1\<close> or \<open>0\<close>, anything else as its string), and one pair
  per element under the bracket-indexed key for a list.
\<close>

fun scalarString :: "'n platform \<Rightarrow> 'n Primitive \<Rightarrow> string" where
  "scalarString pf (Bool True) = ''1''"
| "scalarString pf (Bool False) = ''0''"
| "scalarString pf (Str s) = s"
| "scalarString pf (Num n) = String_number pf n"

fun entryPairs :: "'n platform \<Rightarrow> string \<times> 'n ParamValue \<Rightarrow> (string \<times> string) list" where
  "entryPairs pf (key, Null) = []"
| "entryPairs pf (key, Undefined) = []"
| "entryPairs pf (key, Prim v) = [(key, scalarString pf v)]"
| "entryPairs pf (key, Arr items) =
     map (\<lambda>(index, item). (key @ ''['' @ decimal index @ '']'', scalarString pf item))
       (enumerate 0 items)"

definition canonicalPairs ::
  "'n platform \<Rightarrow> string \<Rightarrow> 'n RequestParams \<Rightarrow> (string \<times> string) list" where
  "canonicalPairs pf action entries = (''action'', action) # concat (map (entryPairs pf) entries)"

text \<open>
  The specification's canonical query string: the pairs as \<open>key=value\<close>, each component
  url-encoded, joined with \<open>&\<close>.
\<close>

fun canonicalQueryString :: "(string \<times> string) list \<Rightarrow> string" where
  "canonicalQueryString [] = []"
| "canonicalQueryString [(k, v)] = urlencode k @ ''='' @ urlencode v"
| "canonicalQueryString ((k, v) # p # ps) =
     urlencode k @ ''='' @ urlencode v @ ''&'' @ canonicalQueryString (p # ps)"

text \<open>The variable \<^verbatim>\<open>params\<close> of \<^verbatim>\<open>call\<close>: the copy of the caller's parameters.\<close>

definition callEntries :: "'n CallOptions option \<Rightarrow> 'n RequestParams" where
  "callEntries options = prepareParams (Option.bind options params)"

text \<open>
  A request is the download of one of the given descriptors: a \<^verbatim>\<open>fetch\<close> of its
  \<^verbatim>\<open>sourceUrl\<close> with no method and no body.
\<close>

definition download_of :: "AttachmentInput list \<Rightarrow> FetchCall \<Rightarrow> bool" where
  "download_of as request =
     (init_method request = None \<and> init_body request = None
      \<and> list_ex (\<lambda>a. case sourceUrl a of None \<Rightarrow> False
                       | Some url \<Rightarrow> input request = UrlString url) as)"

subsection \<open>A platform and inputs for the examples\<close>

text \<open>
  Numbers are natural numbers printed in decimal; the digest is shown as the text it is
  taken of; \<^verbatim>\<open>trim\<close> strips spaces; a URL is the base followed by the path; base64 text
  is decoded as Node decodes it. The network is a parameter.
\<close>

definition example_platform :: "(nat \<Rightarrow> FetchCall \<Rightarrow> nat FetchOutcome) \<Rightarrow> nat platform" where
  "example_platform net =
     \<lparr>String_number = decimal,
      md5_hex = (\<lambda>s. ''md5('' @ s @ '')''),
      trim = (\<lambda>s. rev (dropWhile (\<lambda>c. c = CHR '' '') (rev (dropWhile (\<lambda>c. c = CHR '' '') s)))),
      URL_new = (\<lambda>path base. Inr (base @ path)),
      Buffer_from_base64 = (\<lambda>s. Some (base64_decode s)),
      fetch = net\<rparr>"

definition example_config :: WorksectionConfig where
  "example_config =
     \<lparr>accountUrl = ''https://acme.worksection.com/'', apiKey = ''KEY'', slackBotToken = None\<rparr>"

text \<open>A network that is down, and one that answers every request with a given response.\<close>

definition offline :: "nat \<Rightarrow> FetchCall \<Rightarrow> nat FetchOutcome" where
  "offline k request = Rejected ''fetch failed''"

definition answering :: "nat Response \<Rightarrow> nat \<Rightarrow> FetchCall \<Rightarrow> nat FetchOutcome" where
  "answering response k request = Resolved response"

definition example_response ::
  "bool \<Rightarrow> nat \<Rightarrow> string \<Rightarrow> bytes \<Rightarrow> nat error + nat Envelope \<Rightarrow> nat Response" where
  "example_response o' st txt body j =
     \<lparr>ok = o', http_status = st, statusText = txt, arrayBuffer = body, json = j\<rparr>"

definition example_envelope :: "string option \<Rightarrow> string option \<Rightarrow> string option \<Rightarrow> nat Envelope" where
  "example_envelope st msg details =
     \<lparr>status = st, message = msg, status_code = None, message_details = details, test = None,
      other_fields = [(''data'', ''[{\"id\":\"1\"}]'')]\<rparr>"

definition inline_attachment :: "string \<Rightarrow> bytes \<Rightarrow> AttachmentInput" where
  "inline_attachment name bs =
     \<lparr>field = ''attach[0]'', filename = name, contentType = None, data = Some bs, sourceUrl = None\<rparr>"

definition remote_attachment :: "string \<Rightarrow> string \<Rightarrow> AttachmentInput" where
  "remote_attachment name url =
     \<lparr>field = ''attach[0]'', filename = name, contentType = None, data = None, sourceUrl = Some url\<rparr>"

definition ambiguous_attachment :: "string \<Rightarrow> bytes \<Rightarrow> string \<Rightarrow> AttachmentInput" where
  "ambiguous_attachment name bs url =
     \<lparr>field = ''attach[1]'', filename = name, contentType = None, data = Some bs, sourceUrl = Some url\<rparr>"

definition example_options ::
  "Method option \<Rightarrow> AttachmentInput list option \<Rightarrow> nat CallOptions option" where
  "example_options m atts =
     Some \<lparr>method = m, params = Some [(''filter'', Prim (Str ''active''))], attachments = atts\<rparr>"

definition example_task :: "AttachmentArg list option \<Rightarrow> nat CreateTaskArgs" where
  "example_task atts =
     \<lparr>projectId = ''12'', title = ''Fix it'', description = None, parentTaskId = None,
      assigneeEmail = None, priority = None, startDate = Some ''2024-05-01'', dueDate = None,
      checklist = None, subscribeEmails = None, visibilityEmails = None, mentionEmails = None,
      estimateHours = None, budget = None, tags = Some [''a'', ''b''], attachments = atts\<rparr>"

definition example_file :: "string \<Rightarrow> string \<Rightarrow> AttachmentArg" where
  "example_file name base64 =
     \<lparr>AttachmentArg.filename = name, AttachmentArg.data = Some base64,
      AttachmentArg.sourceUrl = None, AttachmentArg.contentType = None\<rparr>"

definition example_store :: "nat store" where
  "example_store =
     \<lparr>heap = [0 \<mapsto> ParamsObject [(''title'', RefPrim (Str ''Fix it'')), (''todo'', RefArr 1)],
              1 \<mapsto> PrimitiveArray [Str ''a'', Str ''b''],
              2 \<mapsto> ObjectArray [3],
              3 \<mapsto> InputObject ''attach[0]'' ''a.txt'' (Some ''text/plain'') (Some 4) None,
              4 \<mapsto> BufferObject ''hello''],
      next_free = 5\<rparr>"

section \<open>Properties\<close>

subsection \<open>The pairs that buildParamState appends\<close>

lemma coerce_scalar: "coerceToString pf v = scalarString pf v"
  by (cases "(pf, v)" rule: scalarString.cases) auto

lemma foldl_snoc_pairs:
  "foldl (\<lambda>enc (a, b). enc @ [g a b]) encoded xs = encoded @ map (\<lambda>(a, b). g a b) xs"
  by (induction xs arbitrary: encoded) auto

lemma foldl_append_pairs:
  "foldl (\<lambda>enc (a, b). enc @ g a b) encoded xs = encoded @ concat (map (\<lambda>(a, b). g a b) xs)"
  by (induction xs arbitrary: encoded) auto

lemma appendParam_pairs: "appendParam pf encoded key v = encoded @ entryPairs pf (key, v)"
  by (cases v) (simp_all add: append_def coerce_scalar foldl_snoc_pairs)

lemma foldl_appendParam:
  "foldl (\<lambda>enc (key, v). appendParam pf enc key v) encoded es
     = encoded @ concat (map (entryPairs pf) es)"
  by (simp add: appendParam_pairs foldl_append_pairs)

lemma toString_canonical: "toString ps = canonicalQueryString ps"
  by (induction ps rule: canonicalQueryString.induct) (simp_all add: toString_def serialize_pair_def)

lemma buildParamState_pairs:
  "buildParamState pf action ps =
     (canonicalPairs pf action (Object_entries ps),
      canonicalQueryString (canonicalPairs pf action (Object_entries ps)))"
  by (simp add: buildParamState_def Let_def foldl_appendParam append_def canonicalPairs_def
      toString_canonical)

lemma Object_entries_idem: "Object_entries (Object_entries obj) = Object_entries obj"
  unfolding Object_entries_def
  by (simp add: filter_sort sort_key_id_if_sorted)

lemma Object_entries_plain:
  "list_all (\<lambda>p. \<not> is_array_index (fst p)) obj \<Longrightarrow> Object_entries obj = obj"
  by (simp add: Object_entries_def list_all_iff filter_id_conv filter_empty_conv)

lemma signedParams_eq:
  "signedParams pf config action (callEntries options) =
     canonicalPairs pf action (callEntries options)
     @ [(''hash'', md5_hex pf (canonicalQueryString (canonicalPairs pf action (callEntries options))
                                @ apiKey config))]"
  by (simp add: signedParams_def prepareParams_def buildParamState_pairs Object_entries_idem
      callEntries_def append_def Let_def)

subsection \<open>C1: the authentication digest\<close>

text \<open>
  C1. For every action and parameter map, the pairs a call sends are the canonical
  pairs followed by one last pair \<open>hash\<close>, whose value is the MD5 digest of the
  canonical query string (the canonical pairs as \<open>key=value\<close>, url-encoded, joined with
  \<open>&\<close>) concatenated with the API key. The digest is taken of the string of the pairs
  before \<open>hash\<close> is appended.
\<close>

theorem digest_of_canonical_query:
  "signedParams pf config action (callEntries options) =
     canonicalPairs pf action (callEntries options)
     @ [(''hash'', md5_hex pf (canonicalQueryString (canonicalPairs pf action (callEntries options))
                                @ apiKey config))]
   \<and> butlast (signedParams pf config action (callEntries options)) = canonicalPairs pf action (callEntries options)
   \<and> last (signedParams pf config action (callEntries options)) =
       (''hash'', md5_hex pf (canonicalQueryString (butlast (signedParams pf config action (callEntries options)))
                               @ apiKey config))"
  by (simp add: signedParams_eq)

theorem digest_of_canonical_query_witness:
  "signedParams (example_platform offline) example_config ''get_projects''
     (callEntries (Some \<lparr>method = None, params = Some [(''filter'', Prim (Str ''active''))],
                          attachments = None\<rparr>))
   = [(''action'', ''get_projects''), (''filter'', ''active''),
      (''hash'', ''md5(action=get_projects&filter=activeKEY)'')]"
  using digest_of_canonical_query [of "example_platform offline" example_config "''get_projects''"
      "Some \<lparr>method = None, params = Some [(''filter'', Prim (Str ''active''))], attachments = None\<rparr>"]
  by code_simp

subsection \<open>C2: the pairs of the canonical query and their order\<close>

text \<open>
  C2 as stated (parameters are iterated in insertion order) fails for a parameter map
  created with the key \<open>b\<close> before the key \<open>1\<close>: \<^verbatim>\<open>Object.entries\<close> yields \<open>1\<close> first.
\<close>

theorem insertion_order_counterexample:
  "fst (buildParamState (example_platform offline) ''get_tasks''
          (prepareParams (Some [(''b'', Prim (Str ''x'')), (''1'', Prim (Str ''y''))])))
     = [(''action'', ''get_tasks''), (''1'', ''y''), (''b'', ''x'')]
   \<and> fst (buildParamState (example_platform offline) ''get_tasks''
          (prepareParams (Some [(''b'', Prim (Str ''x'')), (''1'', Prim (Str ''y''))])))
     \<noteq> canonicalPairs (example_platform offline) ''get_tasks''
          [(''b'', Prim (Str ''x'')), (''1'', Prim (Str ''y''))]"
  by code_simp

text \<open>
  C2, amended. The canonical query starts with the action pair and then follows the
  parameters in the order of \<^verbatim>\<open>Object.entries\<close>: keys that are array indices first, in
  ascending numeric order, then all other keys in insertion order, which is the
  insertion order of the whole map when no key is an array index. A null or undefined
  value appends nothing, \<open>true\<close> appends \<open>1\<close> and \<open>false\<close> appends \<open>0\<close>, any other scalar
  appends its string, and a list appends one pair per element under the key followed
  by the bracketed index: \<open>tags = [a, b]\<close> gives \<open>tags[0]=a\<close> and \<open>tags[1]=b\<close>.
\<close>

theorem canonical_query_pairs:
  "fst (buildParamState pf action (prepareParams (Some ps)))
     = (''action'', action) # concat (map (entryPairs pf) (Object_entries ps))
   \<and> filter (\<lambda>p. \<not> is_array_index (fst p)) (Object_entries ps)
       = filter (\<lambda>p. \<not> is_array_index (fst p)) ps
   \<and> (list_all (\<lambda>p. \<not> is_array_index (fst p)) ps \<longrightarrow> Object_entries ps = ps)
   \<and> appendParam pf encoded key Null = encoded
   \<and> appendParam pf encoded key Undefined = encoded
   \<and> appendParam pf encoded key (Prim (Bool True)) = encoded @ [(key, ''1'')]
   \<and> appendParam pf encoded key (Prim (Bool False)) = encoded @ [(key, ''0'')]
   \<and> appendParam pf encoded key (Prim (Str s)) = encoded @ [(key, s)]
   \<and> appendParam pf encoded key (Prim (Num n)) = encoded @ [(key, String_number pf n)]
   \<and> appendParam pf encoded key (Arr items)
       = encoded @ map (\<lambda>(index, item). (key @ ''['' @ decimal index @ '']'', coerceToString pf item))
                     (enumerate 0 items)
   \<and> appendParam pf encoded ''tags'' (Arr [Str ''a'', Str ''b''])
       = encoded @ [(''tags[0]'', ''a''), (''tags[1]'', ''b'')]"
proof -
  have order: "filter (\<lambda>p. \<not> is_array_index (fst p)) (Object_entries ps)
       = filter (\<lambda>p. \<not> is_array_index (fst p)) ps"
    by (simp add: Object_entries_def filter_sort)
  have dec: "decimal 0 = ''0''" "decimal (Suc 0) = ''1''"
    by (simp_all add: decimal.simps digit_char_def)
  show ?thesis
    by (simp add: prepareParams_def buildParamState_pairs Object_entries_idem canonicalPairs_def
        order Object_entries_plain append_def foldl_snoc_pairs dec)
qed

theorem canonical_query_pairs_witness:
  "fst (buildParamState (example_platform offline) ''post_task''
          (prepareParams (Some [(''title'', Prim (Str ''Fix it'')), (''urgent'', Prim (Bool True)),
             (''id_parent'', Undefined), (''tags'', Arr [Str ''a'', Str ''b'']),
             (''priority'', Prim (Num 7))])))
     = [(''action'', ''post_task''), (''title'', ''Fix it''), (''urgent'', ''1''),
        (''tags[0]'', ''a''), (''tags[1]'', ''b''), (''priority'', ''7'')]"
proof -
  have plain: "list_all (\<lambda>p. \<not> is_array_index (fst p))
      [(''title'', Prim (Str ''Fix it'')), (''urgent'', Prim (Bool True)),
       (''id_parent'', Undefined), (''tags'', Arr [Str ''a'', Str ''b'']),
       (''priority'', Prim (Num (7::nat)))]"
    by code_simp
  have dec: "decimal 0 = ''0''" "decimal (Suc 0) = ''1''" "decimal 7 = ''7''"
    by (simp_all add: decimal.simps digit_char_def)
  from canonical_query_pairs [of "example_platform offline" "''post_task''"
      "[(''title'', Prim (Str ''Fix it'')), (''urgent'', Prim (Bool True)),
        (''id_parent'', Undefined), (''tags'', Arr [Str ''a'', Str ''b'']),
        (''priority'', Prim (Num 7))]"] plain
  show ?thesis
    by (simp add: example_platform_def dec)
qed

subsection \<open>The two revisions of buildParamState\<close>

text \<open>The two revisions on a list of two tags, one of them with a space.\<close>

lemma revisions_of_buildParamState:
  "buildParamState (example_platform offline) ''post_task'' [(''tags'', Arr [Str ''x y'', Str ''b''])]
     = ([(''action'', ''post_task''), (''tags[0]'', ''x y''), (''tags[1]'', ''b'')],
        ''action=post_task&tags%5B0%5D=x+y&tags%5B1%5D=b'')
   \<and> buildParamState_earlier (example_platform offline) ''post_task''
       [(''tags'', Arr [Str ''x y'', Str ''b''])]
     = ([(''action'', ''post_task''), (''tags'', ''x y''), (''tags'', ''b'')],
        ''action=post_task&tags=x y&tags=b'')"
  by code_simp

subsection \<open>From the attachments to the request\<close>

lemma fetchRemoteAttachment_log:
  "fetchRemoteAttachment pf config url lg = (lg', r) \<Longrightarrow>
     \<exists>request. lg' = lg @ [request] \<and> input request = UrlString url
       \<and> init_method request = None \<and> init_body request = None"
  by (auto simp: fetchRemoteAttachment_def Let_def split: FetchOutcome.splits if_splits option.splits)




lemma call_sent:
  assumes "prepareAttachments pf config (Option.bind options attachments) lg = (lg1, Inr atts)"
    and "buildRequest pf config action (Option.bind options method) (callEntries options) atts = Inr request"
  shows "call pf config action options lg =
     (lg1 @ [request],
      case fetch pf (length lg1) request of
        Rejected msg \<Rightarrow> Inl (WorksectionApiError (''Failed to reach Worksection API: '' @ msg) None)
      | Resolved response \<Rightarrow> interpretResponse pf response)"
  using assms by (simp add: call_def sendRequest_def callEntries_def split: FetchOutcome.splits)


subsection \<open>C3: the method and the place of the parameters\<close>



subsection \<open>C4: HTTP errors and application errors\<close>

text \<open>
  C4. When the request is answered, a response that is not ok (a status outside 200 to
  299) makes \<^verbatim>\<open>call\<close> raise the error \<open>Worksection API HTTP <status>: <statusText>\<close>
  carrying the numeric status, whatever the body holds. A response that is ok and
  whose envelope has a status other than \<open>ok\<close> raises an error carrying the
  envelope's \<^verbatim>\<open>status_code\<close>, whose message is the envelope's message (a fixed text when
  there is none), then the field detail \<^verbatim>\<open>message_details\<close> when present, then the format
  hint \<^verbatim>\<open>test\<close> when present. The two checks do not depend on each other.
\<close>

theorem response_errors:
  assumes "prepareAttachments pf config (Option.bind options attachments) lg = (lg1, Inr atts)"
    and "buildRequest pf config action (Option.bind options method) (callEntries options) atts = Inr request"
    and "fetch pf (length lg1) request = Resolved response"
  shows "(\<not> ok response \<longrightarrow>
            snd (call pf config action options lg)
            = Inl (WorksectionApiError
                (''Worksection API HTTP '' @ String_number pf (http_status response) @ '': ''
                   @ statusText response)
                (Some (http_status response))))
    \<and> (ok response \<and> json response = Inr j \<and> status j \<noteq> Some ''ok'' \<longrightarrow>
            snd (call pf config action options lg)
            = Inl (WorksectionApiError
                ((case message j of Some m \<Rightarrow> m | None \<Rightarrow> ''Worksection API returned an error'')
                 @ (case message_details j of
                      Some d \<Rightarrow> if d \<noteq> [] then '' (field: '' @ d @ '')'' else []
                    | None \<Rightarrow> [])
                 @ (case test j of
                      Some t \<Rightarrow> if t \<noteq> [] then ''. Expected format: '' @ trim pf t else []
                    | None \<Rightarrow> []))
                (status_code j)))"
  by (simp add: call_sent [OF assms(1,2)] assms(3) interpretResponse_def errorMessage_def)

theorem response_errors_witness:
  "snd (call (example_platform (answering (example_response True 200 ''OK'' ''{}''
            (Inr (example_envelope (Some ''error'') (Some ''Field is required'') (Some ''filter''))))))
          example_config ''get_projects'' (example_options None None) [])
     = Inl (WorksectionApiError ''Field is required (field: filter)'' None)
   \<and> snd (call (example_platform (answering (example_response False 500 ''Internal Server Error''
            ''oops'' (Inr (example_envelope (Some ''ok'') None None)))))
          example_config ''get_projects'' (example_options None None) [])
     = Inl (WorksectionApiError ''Worksection API HTTP 500: Internal Server Error'' (Some 500))"
proof -
  let ?r1 = "example_response True 200 ''OK'' ''{}''
            (Inr (example_envelope (Some ''error'') (Some ''Field is required'') (Some ''filter'')))"
  let ?r2 = "example_response False 500 ''Internal Server Error''
            ''oops'' (Inr (example_envelope (Some ''ok'') None None))"
  let ?request = "\<lparr>input = UrlObject
          \<lparr>href = ''https://acme.worksection.com/api/admin/v2'',
           search = ''action=get_projects&filter=active&hash=md5%28action%3Dget_projects%26filter%3DactiveKEY%29''\<rparr>,
        init_method = Some GET,
        init_headers = [(''Accept'', ''application/json'')],
        init_body = None\<rparr>"
  have prep: "prepareAttachments (example_platform net) example_config
                (Option.bind (example_options None None) attachments) [] = ([], Inr [])" for net
    by (simp add: prepareAttachments_def example_options_def)
  have req: "buildRequest (example_platform net) example_config ''get_projects''
               (Option.bind (example_options None None) method)
               (callEntries (example_options None None)) [] = Inr ?request" for net
    by code_simp
  have f1: "fetch (example_platform (answering ?r1)) (length ([]::log)) ?request = Resolved ?r1"
    by (simp add: example_platform_def answering_def)
  have f2: "fetch (example_platform (answering ?r2)) (length ([]::log)) ?request = Resolved ?r2"
    by (simp add: example_platform_def answering_def)
  have d: "decimal 500 = ''500''"
    by code_simp
  from response_errors [OF prep req f1, of "example_envelope (Some ''error'') (Some ''Field is required'') (Some ''filter'')"]
    response_errors [OF prep req f2]
  show ?thesis
    by (simp add: example_response_def example_envelope_def example_platform_def d)
qed

subsection \<open>C5: descriptors with both sources or none\<close>

lemma prepareAttachments_loop_append:
  "prepareAttachments_loop pf config (pre @ rest) acc lg =
     (case prepareAttachments_loop pf config pre acc lg of
        (lg1, Inl e) \<Rightarrow> (lg1, Inl e)
      | (lg1, Inr ps) \<Rightarrow> prepareAttachments_loop pf config rest ps lg1)"
  by (induction pre arbitrary: acc lg) (auto split: prod.splits sum.splits)

lemma prepareAttachment_inline:
  assumes "data a \<noteq> None" and "\<not> truthy (sourceUrl a)"
  shows "\<exists>p. prepareAttachment pf config a lg = (lg, Inr p)"
  using assms by (auto simp: prepareAttachment_def resolveBuffer_def split: option.splits)

lemma prepareAttachments_loop_inline:
  "list_all (\<lambda>a. data a \<noteq> None \<and> \<not> truthy (sourceUrl a)) as \<Longrightarrow>
     \<exists>ps. prepareAttachments_loop pf config as acc lg = (lg, Inr ps)"
proof (induction as arbitrary: acc)
  case Nil
  then show ?case by simp
next
  case (Cons a as)
  then obtain p where "prepareAttachment pf config a lg = (lg, Inr p)"
    using prepareAttachment_inline [of a pf config lg] by auto
  with Cons show ?case by simp
qed

lemma prepareAttachment_unsendable:
  assumes "(data bad \<noteq> None \<and> truthy (sourceUrl bad)) \<or> (data bad = None \<and> \<not> truthy (sourceUrl bad))"
  shows "prepareAttachment pf config bad lg =
     (lg, Inl (WorksectionApiError
        (''Attachment \"'' @ filename bad @
           (if data bad \<noteq> None then ''\" cannot define both data and sourceUrl.''
            else ''\" must include base64 data or a download URL (sourceUrl).'')) None))"
  using assms
  by (cases "sourceUrl bad") (auto simp: prepareAttachment_def resolveBuffer_def)

lemma download_of_mono: "download_of as request \<Longrightarrow> download_of (bs @ as @ cs) request"
  by (auto simp: download_of_def list_ex_iff)

lemma prepareAttachment_log:
  "prepareAttachment pf config a lg = (lg', r) \<Longrightarrow>
     \<exists>new. lg' = lg @ new \<and> list_all (download_of [a]) new"
proof (cases "data a \<noteq> None \<and> truthy (sourceUrl a)")
  case True
  assume "prepareAttachment pf config a lg = (lg', r)"
  with True show ?thesis by (simp add: prepareAttachment_def)
next
  case False
  assume run: "prepareAttachment pf config a lg = (lg', r)"
  obtain l b where rb: "resolveBuffer pf config a lg = (l, b)"
    by (cases "resolveBuffer pf config a lg")
  with run False have l: "lg' = l"
    by (auto simp: prepareAttachment_def split: sum.splits option.splits)
  show ?thesis
  proof (cases "data a = None \<and> truthy (sourceUrl a)")
    case True
    then obtain url where url: "sourceUrl a = Some url" "url \<noteq> []"
      by (cases "sourceUrl a") auto
    obtain l' r' where f: "fetchRemoteAttachment pf config url lg = (l', r')"
      by (cases "fetchRemoteAttachment pf config url lg")
    with rb True url have "l = l'"
      by (auto simp: resolveBuffer_def split: sum.splits)
    with fetchRemoteAttachment_log [OF f] l url show ?thesis
      by (auto simp: download_of_def)
  next
    case False
    with rb have "l = lg"
      by (cases "sourceUrl a") (auto simp: resolveBuffer_def split: option.splits)
    with l show ?thesis by simp
  qed
qed

lemma prepareAttachments_loop_log:
  "prepareAttachments_loop pf config as acc lg = (lg', r) \<Longrightarrow>
     \<exists>new. lg' = lg @ new \<and> list_all (download_of as) new"
proof (induction as arbitrary: acc lg)
  case Nil
  then show ?case by simp
next
  case (Cons a as)
  obtain lg1 r1 where one: "prepareAttachment pf config a lg = (lg1, r1)"
    by (cases "prepareAttachment pf config a lg")
  from prepareAttachment_log [OF one] obtain new1 where
    new1: "lg1 = lg @ new1" "list_all (download_of [a]) new1"
    by blast
  have mono1: "list_all (download_of (a # as)) new1"
    using new1(2) download_of_mono [of "[a]" _ "[]" as] by (auto simp: list_all_iff)
  show ?case
  proof (cases r1)
    case (Inl e)
    with Cons.prems one have "lg' = lg1" by simp
    with new1 mono1 show ?thesis by auto
  next
    case (Inr p)
    with Cons.prems one have "prepareAttachments_loop pf config as (acc @ [p]) lg1 = (lg', r)"
      by simp
    from Cons.IH [OF this] obtain new2 where
      new2: "lg' = lg1 @ new2" "list_all (download_of as) new2"
      by blast
    have "list_all (download_of (a # as)) new2"
      using new2(2) download_of_mono [of as _ "[a]" "[]"] by (auto simp: list_all_iff)
    with new1 new2 mono1 show ?thesis by auto
  qed
qed

text \<open>
  C5 as stated (no HTTP request is attempted before the error) fails for a list whose
  first descriptor has a remote URL and whose second sets both sources: the first
  download is made before the second descriptor is looked at.
\<close>

theorem unsendable_attachment_counterexample:
  "call (example_platform (answering (example_response True 200 ''OK'' ''PNG'' (Inl (SyntaxError ''not JSON'')))))
     example_config ''post_task''
     (example_options (Some POST)
        (Some [remote_attachment ''a.png'' ''https://files.example/a.png'',
               ambiguous_attachment ''b.png'' ''PNG'' ''https://files.example/b.png''])) []
   = ([\<lparr>input = UrlString ''https://files.example/a.png'', init_method = None,
        init_headers = [], init_body = None\<rparr>],
      Inl (WorksectionApiError ''Attachment \"b.png\" cannot define both data and sourceUrl.'' None))"
  by code_simp

text \<open>
  C5, amended. Let a descriptor set both inline data and a non-empty remote URL, or
  neither. Then \<^verbatim>\<open>call\<close> ends with an error and never sends the API request: every
  request it makes is the download of an earlier descriptor. When the earlier
  descriptors resolve, the error is the caller error naming the descriptor's file, and
  nothing is requested after them; when all of them carry inline data, no request is
  made at all.
\<close>

theorem unsendable_attachment_raises:
  assumes "Option.bind options attachments = Some (pre @ bad # post)"
    and "(data bad \<noteq> None \<and> truthy (sourceUrl bad)) \<or> (data bad = None \<and> \<not> truthy (sourceUrl bad))"
  shows "(\<exists>e new. call pf config action options lg = (lg @ new, Inl e)
            \<and> list_all (download_of pre) new)
    \<and> (\<forall>lg1 ps. prepareAttachments_loop pf config pre [] lg = (lg1, Inr ps) \<longrightarrow>
           call pf config action options lg =
             (lg1, Inl (WorksectionApiError
                (''Attachment \"'' @ filename bad @
                   (if data bad \<noteq> None then ''\" cannot define both data and sourceUrl.''
                    else ''\" must include base64 data or a download URL (sourceUrl).'')) None)))
    \<and> (list_all (\<lambda>a. data a \<noteq> None \<and> \<not> truthy (sourceUrl a)) pre \<longrightarrow>
           call pf config action options lg =
             (lg, Inl (WorksectionApiError
                (''Attachment \"'' @ filename bad @
                   (if data bad \<noteq> None then ''\" cannot define both data and sourceUrl.''
                    else ''\" must include base64 data or a download URL (sourceUrl).'')) None)))"
proof -
  let ?err = "WorksectionApiError
                (''Attachment \"'' @ filename bad @
                   (if data bad \<noteq> None then ''\" cannot define both data and sourceUrl.''
                    else ''\" must include base64 data or a download URL (sourceUrl).'')) None"
  have unfold: "prepareAttachments pf config (Option.bind options attachments) lg
      = prepareAttachments_loop pf config (pre @ bad # post) [] lg"
    by (simp add: assms(1) prepareAttachments_def)
  have reached: "prepareAttachments_loop pf config (pre @ bad # post) [] lg = (lg1, Inl ?err)"
    if "prepareAttachments_loop pf config pre [] lg = (lg1, Inr ps)" for lg1 ps
    using that prepareAttachment_unsendable [OF assms(2), of pf config lg1]
    by (simp add: prepareAttachments_loop_append)
  have second: "call pf config action options lg = (lg1, Inl ?err)"
    if "prepareAttachments_loop pf config pre [] lg = (lg1, Inr ps)" for lg1 ps
    using reached [OF that] by (simp add: call_def unfold)
  have third: "call pf config action options lg = (lg, Inl ?err)"
    if "list_all (\<lambda>a. data a \<noteq> None \<and> \<not> truthy (sourceUrl a)) pre"
    using prepareAttachments_loop_inline [OF that, of pf config "[]" lg] second by blast
  obtain lg1 r1 where pre: "prepareAttachments_loop pf config pre [] lg = (lg1, r1)"
    by (cases "prepareAttachments_loop pf config pre [] lg")
  from prepareAttachments_loop_log [OF pre] obtain new where
    new: "lg1 = lg @ new" "list_all (download_of pre) new"
    by blast
  have first: "\<exists>e new. call pf config action options lg = (lg @ new, Inl e)
            \<and> list_all (download_of pre) new"
  proof (cases r1)
    case (Inl e)
    with pre have "prepareAttachments_loop pf config (pre @ bad # post) [] lg = (lg1, Inl e)"
      by (simp add: prepareAttachments_loop_append)
    then have "call pf config action options lg = (lg1, Inl e)"
      by (simp add: call_def unfold)
    with new show ?thesis by blast
  next
    case (Inr ps)
    with pre second have "call pf config action options lg = (lg1, Inl ?err)"
      by blast
    with new show ?thesis by blast
  qed
  from first second third show ?thesis by blast
qed

theorem unsendable_attachment_raises_witness:
  "call (example_platform offline) example_config ''post_task''
     (example_options (Some POST)
        (Some [inline_attachment ''a.txt'' ''hello'',
               ambiguous_attachment ''b.png'' ''PNG'' ''https://files.example/b.png''])) []
   = ([], Inl (WorksectionApiError ''Attachment \"b.png\" cannot define both data and sourceUrl.'' None))"
proof -
  let ?options = "example_options (Some POST)
        (Some [inline_attachment ''a.txt'' ''hello'',
               ambiguous_attachment ''b.png'' ''PNG'' ''https://files.example/b.png''])"
  let ?bad = "ambiguous_attachment ''b.png'' ''PNG'' ''https://files.example/b.png''"
  have atts: "Option.bind ?options attachments = Some ([inline_attachment ''a.txt'' ''hello''] @ ?bad # [])"
    by (simp add: example_options_def)
  have bad: "(data ?bad \<noteq> None \<and> truthy (sourceUrl ?bad)) \<or> (data ?bad = None \<and> \<not> truthy (sourceUrl ?bad))"
    by (simp add: ambiguous_attachment_def)
  have inline: "list_all (\<lambda>a. data a \<noteq> None \<and> \<not> truthy (sourceUrl a)) [inline_attachment ''a.txt'' ''hello'']"
    by (simp add: inline_attachment_def)
  from unsendable_attachment_raises [OF atts bad, of "example_platform offline" example_config
      "''post_task''" "[]"] inline
  show ?thesis
    by (simp add: ambiguous_attachment_def)
qed

subsection \<open>C6: the success sentinel\<close>

text \<open>Whatever \<^verbatim>\<open>call\<close> returns, on any input, is an envelope with status \<open>ok\<close>.\<close>

lemma call_returns_ok_envelope:
  assumes "snd (call pf config action options lg) = Inr j"
  shows "status j = Some ''ok''"
proof -
  obtain lg1 r1 where prep:
    "prepareAttachments pf config (Option.bind options attachments) lg = (lg1, r1)"
    by (cases "prepareAttachments pf config (Option.bind options attachments) lg")
  with assms obtain atts where atts: "r1 = Inr atts"
    by (cases r1) (auto simp: call_def)
  with assms prep obtain request where
    request: "buildRequest pf config action (Option.bind options method) (callEntries options) atts
                = Inr request"
    by (cases "buildRequest pf config action (Option.bind options method) (callEntries options) atts")
       (auto simp: call_def sendRequest_def callEntries_def)
  from assms call_sent [OF prep [unfolded atts] request]
  obtain response where "fetch pf (length lg1) request = Resolved response"
    and "interpretResponse pf response = Inr j"
    by (cases "fetch pf (length lg1) request") auto
  then show ?thesis
    by (auto simp: interpretResponse_def split: if_splits sum.splits)
qed



subsection \<open>C7: the errors of a remote download\<close>

text \<open>
  What \<^verbatim>\<open>fetchRemoteAttachment\<close> does: one \<^verbatim>\<open>fetch\<close> of the URL, with the header
  \<open>Authorization: Bearer <token>\<close> when the configured token is a non-empty string and
  with no header otherwise; the three failures raise an error, of which the one for a
  response that is not ok carries the status and the status text and not the URL.
\<close>

lemma fetchRemoteAttachment_outcomes:
  "fetchRemoteAttachment pf config url lg =
     (lg @ [\<lparr>input = UrlString url, init_method = None,
              init_headers = (if truthy (slackBotToken config)
                              then [(''Authorization'', ''Bearer '' @ the (slackBotToken config))]
                              else []),
              init_body = None\<rparr>],
      case fetch pf (length lg)
             \<lparr>input = UrlString url, init_method = None,
              init_headers = (if truthy (slackBotToken config)
                              then [(''Authorization'', ''Bearer '' @ the (slackBotToken config))]
                              else []),
              init_body = None\<rparr> of
        Rejected msg \<Rightarrow>
          Inl (WorksectionApiError (''Failed to download attachment from '' @ url @ '': '' @ msg) None)
      | Resolved response \<Rightarrow>
          if \<not> ok response then
            Inl (WorksectionApiError
              (''Downloading attachment failed ('' @ String_number pf (http_status response) @ ''): ''
                 @ statusText response) None)
          else if arrayBuffer response = [] then
            Inl (WorksectionApiError (''Attachment at '' @ url @ '' is empty.'') None)
          else Inr (arrayBuffer response))"
  by (cases "slackBotToken config")
     (auto simp: fetchRemoteAttachment_def Let_def split: FetchOutcome.splits)

text \<open>
  C7 at a response with status 404: the error raised for the download of
  \<open>https://files.example/a.png\<close> is \<open>Downloading attachment failed (404): Not Found\<close>,
  which does not name the URL.
\<close>

theorem download_http_error_omits_url:
  "fetchRemoteAttachment
     (example_platform (answering (example_response False 404 ''Not Found'' [] (Inl (SyntaxError ''not JSON'')))))
     example_config ''https://files.example/a.png'' []
   = ([\<lparr>input = UrlString ''https://files.example/a.png'', init_method = None,
        init_headers = [], init_body = None\<rparr>],
      Inl (WorksectionApiError ''Downloading attachment failed (404): Not Found'' None))
   \<and> \<not> sublist ''https://files.example/a.png'' ''Downloading attachment failed (404): Not Found''"
  by code_simp

subsection \<open>C8: inline data that does not decode\<close>

lemma convertAttachments_append:
  "convertAttachments pf index (pre @ rest) =
     (case convertAttachments pf index pre of
        Inl e \<Rightarrow> Inl e
      | Inr ps \<Rightarrow>
          (case convertAttachments pf (index + length pre) rest of
             Inl e \<Rightarrow> Inl e
           | Inr qs \<Rightarrow> Inr (ps @ qs)))"
  by (induction pre arbitrary: index) (auto split: sum.splits)

text \<open>
  The decoder of Node yields no bytes exactly when the text has fewer than two
  characters of the alphabet before its first \<open>=\<close>.
\<close>

lemma base64_decode_group_empty:
  "base64_decode_group sextets = [] \<longleftrightarrow> length sextets < 2"
  by (induction sextets rule: base64_decode_group.induct) simp_all

lemma base64_decode_empty:
  "base64_decode s = [] \<longleftrightarrow>
     length (List.map_filter unbase64 (takeWhile (\<lambda>c. c \<noteq> CHR ''='') s)) < 2"
  by (simp add: base64_decode_def base64_decode_group_empty)

text \<open>
  Inline data that decodes to zero bytes: the conversion raises an error whose message
  names the file of that attachment, the tool answers with that message as an error
  result, and no HTTP request is sent. The attachments before it are convertible (none,
  when it is the only one).
\<close>

lemma decodeData_empty:
  assumes "AttachmentArg.data a = Some d" and "d \<noteq> []"
    and "Buffer_from_base64 pf d = Some []"
  shows "decodeData pf a =
     Inl (Error (''Attachment \"'' @ AttachmentArg.filename a
                   @ ''\" is empty or not valid base64 data.''))"
  using assms by (simp add: decodeData_def)

lemma zero_byte_attachment_raises:
  assumes "CreateTaskArgs.attachments args = Some (pre @ a # post)"
    and "convertAttachments pf 0 pre = Inr ps"
    and "AttachmentArg.data a = Some d" and "d \<noteq> []"
    and "Buffer_from_base64 pf d = Some []"
  shows "taskAttachments pf args =
           Inl (Error (''Attachment \"'' @ AttachmentArg.filename a
                         @ ''\" is empty or not valid base64 data.''))
    \<and> post_task pf config args lg =
          (lg, RespondError (''Attachment \"'' @ AttachmentArg.filename a
                               @ ''\" is empty or not valid base64 data.''))"
proof -
  let ?msg = "''Attachment \"'' @ AttachmentArg.filename a
                @ ''\" is empty or not valid base64 data.''"
  have one: "convertAttachment pf (length pre) a = Inl (Error ?msg)"
    by (simp add: convertAttachment_def decodeData_empty [OF assms(3-5)])
  have "convertAttachments pf 0 (pre @ a # post) = Inl (Error ?msg)"
    by (simp add: convertAttachments_append assms(2) one)
  then have conv: "taskAttachments pf args = Inl (Error ?msg)"
    by (simp add: taskAttachments_def assms(1))
  then have "post_task pf config args lg = (lg, RespondError ?msg)"
    by (simp add: post_task_def respondError_def Let_def)
  with conv show ?thesis by simp
qed

lemma zero_byte_attachment_example:
  "post_task (example_platform (answering (example_response True 200 ''OK'' ''{}''
        (Inr (example_envelope (Some ''ok'') None None)))))
     example_config (example_task (Some [example_file ''empty.txt'' ''====''])) []
   = ([], RespondError ''Attachment \"empty.txt\" is empty or not valid base64 data.'')"
proof -
  let ?pf = "example_platform (answering (example_response True 200 ''OK'' ''{}''
        (Inr (example_envelope (Some ''ok'') None None))))"
  let ?a = "example_file ''empty.txt'' ''====''"
  have atts: "CreateTaskArgs.attachments (example_task (Some [?a])) = Some ([] @ ?a # [])"
    by (simp add: example_task_def)
  have pre: "convertAttachments ?pf 0 [] = Inr []"
    by simp
  have d: "AttachmentArg.data ?a = Some ''===='' " "''===='' \<noteq> []"
    by (simp_all add: example_file_def)
  have dec: "Buffer_from_base64 ?pf ''===='' = Some []"
    by (simp add: example_platform_def base64_decode_def map_filter_simps)
  from zero_byte_attachment_raises [OF atts pre d dec, of example_config "[]"]
  show ?thesis
    by (simp add: example_file_def)
qed

text \<open>
  With a decoder that does not throw, as that of Node, the \<^verbatim>\<open>catch\<close> around
  \<^verbatim>\<open>Buffer.from\<close> is not entered: the conversion of inline data has one error, that of
  zero bytes, and data that yields a byte is passed on as the buffer of the attachment,
  whatever its characters.
\<close>

lemma decodeData_never_throwing:
  assumes "Buffer_from_base64 pf = (\<lambda>s. Some (base64_decode s))"
    and "AttachmentArg.data a = Some d"
  shows "decodeData pf a =
     (if d = [] then Inr None
      else if base64_decode d = []
      then Inl (Error (''Attachment \"'' @ AttachmentArg.filename a
                         @ ''\" is empty or not valid base64 data.''))
      else Inr (Some (base64_decode d)))"
  using assms by (simp add: decodeData_def)

text \<open>
  C8. The tool \<^verbatim>\<open>post_task\<close> is called with one attachment, \<open>notes.txt\<close>, whose inline
  data \<open>!!not*base64??\<close> is not base64. \<^verbatim>\<open>Buffer.from\<close> skips the characters outside the
  alphabet and decodes \<open>notbase6\<close> to six bytes, so the handler raises no error: neither
  that of data that is not valid base64, which needs \<^verbatim>\<open>Buffer.from\<close> to throw, nor that
  of empty data. The request is sent with the six bytes as the file, and the tool
  answers with the data of the response.
\<close>

theorem undecodable_attachment_is_sent:
  "base64_decode ''!!not*base64??'' = [CHR 0x9E, CHR 0x8B, CHR ''['', CHR ''j'', CHR 0xC7, CHR 0xBA]
   \<and> post_task (example_platform (answering (example_response True 200 ''OK'' ''{}''
          (Inr (example_envelope (Some ''ok'') None None)))))
       example_config (example_task (Some [example_file ''notes.txt'' ''!!not*base64??''])) []
     = ([\<lparr>input = UrlObject
            \<lparr>href = ''https://acme.worksection.com/api/admin/v2'',
             search = ''action=post_task&id_project=12&title=Fix+it&datestart=01.05.2024&tags=a%2C+b&hash=md5%28action%3Dpost_task%26id_project%3D12%26title%3DFix%2Bit%26datestart%3D01.05.2024%26tags%3Da%252C%2BbKEY%29''\<rparr>,
          init_method = Some POST,
          init_headers = [(''Accept'', ''application/json'')],
          init_body = Some (BodyFormData
            [FormField ''action'' ''post_task'',
             FormField ''id_project'' ''12'',
             FormField ''title'' ''Fix it'',
             FormField ''datestart'' ''01.05.2024'',
             FormField ''tags'' ''a, b'',
             FormField ''hash''
               ''md5(action=post_task&id_project=12&title=Fix+it&datestart=01.05.2024&tags=a%2C+bKEY)'',
             FormFile ''attach[0]''
               \<lparr>blob_bytes = [CHR 0x9E, CHR 0x8B, CHR ''['', CHR ''j'', CHR 0xC7, CHR 0xBA],
                blob_type = ''application/octet-stream''\<rparr>
               ''notes.txt''])\<rparr>],
        Respond ''[{\"id\":\"1\"}]'')"
  by code_simp

subsection \<open>C9: the multipart request\<close>



subsection \<open>The store: what a call writes\<close>

lemma push_frame:
  "n \<le> array \<Longrightarrow> next_free (push s array x) = next_free s \<and> (\<forall>b < n. heap (push s array x) b = heap s b)"
  by (auto simp: push_def assign_def split: option.splits object.splits)

lemma resolveBuffer_st_frame:
  assumes "resolveBuffer_st pf config s dt su lg = (s', lg', r)"
  shows "next_free s \<le> next_free s' \<and> (\<forall>b < next_free s. heap s' b = heap s b)"
  using assms
  by (auto simp: resolveBuffer_st_def alloc_def split: option.splits if_splits prod.splits sum.splits)

lemma prepareAttachment_st_frame:
  assumes "prepareAttachment_st pf config s attachment lg = (s', lg', r)"
  shows "next_free s \<le> next_free s' \<and> (\<forall>b < next_free s. heap s' b = heap s b)"
proof (cases "heap s attachment")
  case None
  with assms show ?thesis by (simp add: prepareAttachment_st_def)
next
  case (Some obj)
  show ?thesis
  proof (cases obj)
    case (InputObject fld name ct dt su)
    obtain s1 lg1 r1 where rb: "resolveBuffer_st pf config s dt su lg = (s1, lg1, r1)"
      by (cases "resolveBuffer_st pf config s dt su lg")
    note f1 = resolveBuffer_st_frame [OF rb]
    from assms Some InputObject rb
    consider "s' = s" | "s' = s1"
      | b where "s' = fst (alloc s1 (PayloadObject fld name b None))"
      | b where "s' = assign (fst (alloc s1 (PayloadObject fld name b None)))
                        (next_free s1) (PayloadObject fld name b ct)"
      by (auto simp: prepareAttachment_st_def alloc_def Let_def
          split: if_splits sum.splits option.splits)
    then show ?thesis
      using f1 by cases (auto simp: alloc_def assign_def)
  qed (use assms Some in \<open>simp_all add: prepareAttachment_st_def\<close>)
qed

lemma prepareAttachments_loop_st_frame:
  "prepareAttachments_loop_st pf config s ds payloads lg = (s', lg', r) \<Longrightarrow>
   n \<le> payloads \<Longrightarrow> n \<le> next_free s \<Longrightarrow>
     n \<le> next_free s' \<and> (\<forall>b < n. heap s' b = heap s b)"
proof (induction ds arbitrary: s lg)
  case Nil
  then show ?case by simp
next
  case (Cons d ds)
  obtain s1 lg1 r1 where one: "prepareAttachment_st pf config s d lg = (s1, lg1, r1)"
    by (cases "prepareAttachment_st pf config s d lg")
  note f1 = prepareAttachment_st_frame [OF one]
  show ?case
  proof (cases r1)
    case (Inl e)
    with Cons.prems one f1 show ?thesis by auto
  next
    case (Inr p)
    with Cons.prems(1) one
    have rest: "prepareAttachments_loop_st pf config (push s1 payloads p) ds payloads lg1 = (s', lg', r)"
      by simp
    note fp = push_frame [OF Cons.prems(2), of s1 p]
    from f1 fp Cons.prems(3) have "n \<le> next_free (push s1 payloads p)" by simp
    from Cons.IH [OF rest Cons.prems(2) this] f1 fp Cons.prems(3)
    show ?thesis by auto
  qed
qed

lemma prepareAttachments_st_frame:
  assumes "prepareAttachments_st pf config s atts lg = (s', lg', r)"
  shows "next_free s \<le> next_free s' \<and> (\<forall>b < next_free s. heap s' b = heap s b)"
proof (cases atts)
  case None
  with assms show ?thesis by (auto simp: prepareAttachments_st_def alloc_def)
next
  case (Some a)
  show ?thesis
  proof (cases "\<exists>ds. heap s a = Some (ObjectArray ds) \<and> ds \<noteq> []")
    case True
    then obtain ds where ds: "heap s a = Some (ObjectArray ds)" "ds \<noteq> []" by blast
    let ?s1 = "fst (alloc s (ObjectArray []))"
    from assms Some ds
    have loop: "prepareAttachments_loop_st pf config ?s1 ds (next_free s) lg = (s', lg', r)"
      by (simp add: prepareAttachments_st_def alloc_def)
    have "next_free s \<le> next_free ?s1" by (simp add: alloc_def)
    from prepareAttachments_loop_st_frame [OF loop order_refl this]
    show ?thesis by (auto simp: alloc_def)
  next
    case False
    with assms Some show ?thesis
      by (auto simp: prepareAttachments_st_def alloc_def split: option.splits object.splits if_splits)
  qed
qed

lemma call_st_frame:
  assumes "call_st pf config action requested ps atts s lg = (s', lg', r)"
  shows "next_free s \<le> next_free s' \<and> (\<forall>a < next_free s. heap s' a = heap s a)"
proof -
  obtain s1 lg1 r1 where prep: "prepareAttachments_st pf config s atts lg = (s1, lg1, r1)"
    by (cases "prepareAttachments_st pf config s atts lg")
  note f1 = prepareAttachments_st_frame [OF prep]
  show ?thesis
  proof (cases r1)
    case (Inl e)
    with assms prep have "s' = s1" by (simp add: call_st_def)
    with f1 show ?thesis by simp
  next
    case (Inr payloads)
    with assms prep have "s' = fst (prepareParams_st s1 ps)"
      by (auto simp: call_st_def Let_def split: prod.splits)
    with f1 show ?thesis
      by (auto simp: prepareParams_st_def alloc_def)
  qed
qed

subsection \<open>The store and the functional model agree\<close>

lemma input_at_same:
  assumes "same_below n s s'" and "input_at s n d"
  shows "input_at s' n d \<and> readInput s' d = readInput s d"
proof -
  from assms(2) obtain fld name ct dt su where
    d: "d < n" "heap s d = Some (InputObject fld name ct dt su)"
    by (auto simp: input_at_def split: option.splits object.splits)
  with assms(1) have d': "heap s' d = Some (InputObject fld name ct dt su)"
    by (simp add: same_below_def)
  show ?thesis
  proof (cases dt)
    case None
    with d d' show ?thesis by (simp add: input_at_def readInput_def)
  next
    case (Some b)
    with assms(2) d have b: "b < n" "\<exists>bs. heap s b = Some (BufferObject bs)"
      by (auto simp: input_at_def buffer_at_def split: option.splits object.splits)
    with assms(1) have "heap s' b = heap s b" by (simp add: same_below_def)
    with d d' b Some show ?thesis
      by (auto simp: input_at_def buffer_at_def readInput_def readBuffer_def)
  qed
qed

lemma inputs_at_same:
  assumes "same_below n s s'" and "list_all (input_at s n) ds"
  shows "list_all (input_at s' n) ds \<and> map (readInput s') ds = map (readInput s) ds"
  using assms(2) input_at_same [OF assms(1)] by (induction ds) auto

lemma payload_at_same:
  assumes "payload_at s lo p" and "\<forall>b < next_free s. b \<noteq> lo \<longrightarrow> heap s' b = heap s b"
    and "next_free s \<le> next_free s'"
  shows "payload_at s' lo p \<and> readPayload s' p = readPayload s p"
proof -
  from assms(1) obtain fld name b ct bs where
    p: "lo < p" "p < next_free s" "heap s p = Some (PayloadObject fld name b ct)"
      "b \<noteq> lo" "b < next_free s" "heap s b = Some (BufferObject bs)"
    by (auto simp: payload_at_def split: option.splits object.splits)
  with assms(2) have "heap s' p = heap s p" "heap s' b = heap s b"
    by auto
  with p assms(3) show ?thesis
    by (auto simp: payload_at_def readPayload_def readBuffer_def)
qed

lemma payloads_at_same:
  assumes "list_all (payload_at s lo) ps" and "\<forall>b < next_free s. b \<noteq> lo \<longrightarrow> heap s' b = heap s b"
    and "next_free s \<le> next_free s'"
  shows "list_all (payload_at s' lo) ps \<and> map (readPayload s') ps = map (readPayload s) ps"
  using assms(1) payload_at_same [OF _ assms(2,3)] by (induction ps) auto

lemma prepareAttachment_st_refines:
  assumes ok: "store_ok s" and n: "n \<le> lo" "lo < next_free s" and d: "input_at s n d"
    and run: "prepareAttachment_st pf config s d lg = (s', lg', r)"
  shows "prepareAttachment pf config (readInput s d) lg = (lg', map_sum id (readPayload s') r)
    \<and> store_ok s' \<and> (\<forall>b < next_free s. heap s' b = heap s b) \<and> next_free s \<le> next_free s'
    \<and> (\<forall>p. r = Inr p \<longrightarrow> next_free s \<le> p \<and> payload_at s' lo p)"
proof -
  from d obtain fld name ct dt su where
    obj: "d < n" "heap s d = Some (InputObject fld name ct dt su)"
    by (auto simp: input_at_def split: option.splits object.splits)
  have rd: "readInput s d = \<lparr>field = fld, filename = name, contentType = ct,
           data = map_option (readBuffer s) dt, sourceUrl = su\<rparr>"
    by (simp add: readInput_def obj)
  show ?thesis
  proof (cases dt)
    case (Some b)
    with d obj obtain bs where b: "b < n" "heap s b = Some (BufferObject bs)"
      by (auto simp: input_at_def buffer_at_def split: option.splits object.splits)
    show ?thesis
    proof (cases "truthy su")
      case True
      with run obj Some rd ok show ?thesis
        by (auto simp: prepareAttachment_st_def prepareAttachment_def)
    next
      case False
      with run obj Some rd ok b n show ?thesis
        by (auto simp: prepareAttachment_st_def prepareAttachment_def resolveBuffer_st_def
            resolveBuffer_def alloc_def assign_def Let_def readPayload_def readBuffer_def
            store_ok_def payload_at_def)
    qed
  next
    case None
    show ?thesis
    proof (cases "truthy su")
      case False
      with run obj None rd ok show ?thesis
        by (cases su)
           (auto simp: prepareAttachment_st_def prepareAttachment_def resolveBuffer_st_def
              resolveBuffer_def)
    next
      case True
      then obtain url where url: "su = Some url" "url \<noteq> []"
        by (cases su) auto
      obtain l r1 where f: "fetchRemoteAttachment pf config url lg = (l, r1)"
        by (cases "fetchRemoteAttachment pf config url lg")
      show ?thesis
      proof (cases r1)
        case (Inl e)
        with run obj None rd ok url f show ?thesis
          by (auto simp: prepareAttachment_st_def prepareAttachment_def resolveBuffer_st_def
              resolveBuffer_def)
      next
        case (Inr bs)
        with run obj None rd ok url f n show ?thesis
          by (auto simp: prepareAttachment_st_def prepareAttachment_def resolveBuffer_st_def
              resolveBuffer_def alloc_def assign_def Let_def readPayload_def readBuffer_def
              store_ok_def payload_at_def)
      qed
    qed
  qed
qed

lemma prepareAttachments_loop_st_refines:
  "prepareAttachments_loop_st pf config s ds payloads lg = (s', lg', r) \<Longrightarrow>
   store_ok s \<Longrightarrow> n \<le> payloads \<Longrightarrow> payloads < next_free s \<Longrightarrow>
   heap s payloads = Some (ObjectArray ps) \<Longrightarrow> list_all (payload_at s payloads) ps \<Longrightarrow>
   list_all (input_at s n) ds \<Longrightarrow>
     prepareAttachments_loop pf config (map (readInput s) ds) (map (readPayload s) ps) lg
       = (lg', map_sum id (readPayloads s') r)
     \<and> store_ok s'"
proof (induction ds arbitrary: s ps lg)
  case Nil
  then show ?case by (auto simp: readPayloads_def)
next
  case (Cons d ds)
  from Cons.prems(7) have d: "input_at s n d" and ds: "list_all (input_at s n) ds"
    by simp_all
  obtain s1 lg1 r1 where one: "prepareAttachment_st pf config s d lg = (s1, lg1, r1)"
    by (cases "prepareAttachment_st pf config s d lg")
  from prepareAttachment_st_refines [OF Cons.prems(2) Cons.prems(3) Cons.prems(4) d one]
  have pure: "prepareAttachment pf config (readInput s d) lg = (lg1, map_sum id (readPayload s1) r1)"
    and ok1: "store_ok s1"
    and frame1: "\<forall>b < next_free s. heap s1 b = heap s b"
    and next1: "next_free s \<le> next_free s1"
    and new: "\<forall>p. r1 = Inr p \<longrightarrow> next_free s \<le> p \<and> payload_at s1 payloads p"
    by simp_all
  show ?case
  proof (cases r1)
    case (Inl e)
    with Cons.prems(1) one pure ok1 show ?thesis by auto
  next
    case (Inr p)
    let ?s2 = "push s1 payloads p"
    from Cons.prems(1) one Inr
    have rest: "prepareAttachments_loop_st pf config ?s2 ds payloads lg1 = (s', lg', r)"
      by simp
    from frame1 Cons.prems(4,5) have arr1: "heap s1 payloads = Some (ObjectArray ps)"
      by simp
    then have s2: "?s2 = assign s1 payloads (ObjectArray (ps @ [p]))"
      by (simp add: push_def)
    have next2: "next_free ?s2 = next_free s1"
      by (simp add: s2 assign_def)
    have heap2: "heap ?s2 b = (if b = payloads then Some (ObjectArray (ps @ [p])) else heap s1 b)" for b
      by (simp add: s2 assign_def)
    have ok2: "store_ok ?s2"
      using ok1 Cons.prems(4) next1 by (auto simp: store_ok_def heap2 next2)
    have lt2: "payloads < next_free ?s2"
      using Cons.prems(4) next1 next2 by simp
    have arr2: "heap ?s2 payloads = Some (ObjectArray (ps @ [p]))"
      by (simp add: heap2)
    have same2: "same_below n s ?s2"
      using frame1 Cons.prems(3,4) by (auto simp: same_below_def heap2)
    from inputs_at_same [OF same2 ds]
    have ds2: "list_all (input_at ?s2 n) ds" and rd2: "map (readInput ?s2) ds = map (readInput s) ds"
      by simp_all
    have old: "list_all (payload_at ?s2 payloads) ps
        \<and> map (readPayload ?s2) ps = map (readPayload s) ps"
      by (rule payloads_at_same [OF Cons.prems(6)]) (use frame1 next1 in \<open>auto simp: heap2 next2\<close>)
    from new Inr have p: "payload_at s1 payloads p" by simp
    have newp: "payload_at ?s2 payloads p \<and> readPayload ?s2 p = readPayload s1 p"
      by (rule payload_at_same [OF p]) (auto simp: heap2 next2)
    from old newp have ps2: "list_all (payload_at ?s2 payloads) (ps @ [p])"
      by simp
    from Cons.IH [OF rest ok2 Cons.prems(3) lt2 arr2 ps2 ds2] old newp
    show ?thesis
      by (simp add: pure Inr rd2)
  qed
qed

lemma prepareAttachments_st_refines:
  assumes ok: "store_ok s" and inputs: "inputs_at s atts"
    and run: "prepareAttachments_st pf config s atts lg = (s', lg', r)"
  shows "prepareAttachments pf config (readInputs s atts) lg = (lg', map_sum id (readPayloads s') r)
    \<and> store_ok s'"
proof (cases atts)
  case None
  with run ok show ?thesis
    by (auto simp: prepareAttachments_st_def prepareAttachments_def readInputs_def alloc_def
        readPayloads_def store_ok_def)
next
  case (Some a)
  with inputs obtain ds where
    a: "a < next_free s" "heap s a = Some (ObjectArray ds)"
      "list_all (input_at s (next_free s)) ds"
    by (auto simp: inputs_at_def split: option.splits object.splits)
  have rd: "readInputs s atts = Some (map (readInput s) ds)"
    by (simp add: readInputs_def Some a)
  show ?thesis
  proof (cases "ds = []")
    case True
    with run ok Some a rd show ?thesis
      by (auto simp: prepareAttachments_st_def prepareAttachments_def alloc_def
          readPayloads_def store_ok_def)
  next
    case False
    let ?s0 = "fst (alloc s (ObjectArray []))"
    let ?n = "next_free s"
    from run Some a False
    have loop: "prepareAttachments_loop_st pf config ?s0 ds ?n lg = (s', lg', r)"
      by (simp add: prepareAttachments_st_def alloc_def)
    have ok0: "store_ok ?s0"
      using ok by (auto simp: store_ok_def alloc_def)
    have lt0: "?n < next_free ?s0"
      by (simp add: alloc_def)
    have arr0: "heap ?s0 ?n = Some (ObjectArray [])"
      by (simp add: alloc_def)
    have same0: "same_below ?n s ?s0"
      by (simp add: same_below_def alloc_def)
    from inputs_at_same [OF same0 a(3)]
    have ds0: "list_all (input_at ?s0 ?n) ds" and rd0: "map (readInput ?s0) ds = map (readInput s) ds"
      by simp_all
    have none: "list_all (payload_at ?s0 ?n) []"
      by simp
    from prepareAttachments_loop_st_refines [OF loop ok0 order_refl lt0 arr0 none ds0]
    show ?thesis
      by (simp add: rd rd0 prepareAttachments_def False)
  qed
qed

lemma insort_key_map_values:
  "insort_key (\<lambda>p. f (fst p)) (k, g v) (map (\<lambda>(k, v). (k, g v)) xs)
     = map (\<lambda>(k, v). (k, g v)) (insort_key (\<lambda>p. f (fst p)) (k, v) xs)"
  by (induction xs) auto

lemma sort_key_map_values:
  "sort_key (\<lambda>p. f (fst p)) (map (\<lambda>(k, v). (k, g v)) xs)
     = map (\<lambda>(k, v). (k, g v)) (sort_key (\<lambda>p. f (fst p)) xs)"
  by (induction xs) (auto simp: insort_key_map_values)

lemma Object_entries_map_values:
  "Object_entries (map (\<lambda>(k, v). (k, g v)) es) = map (\<lambda>(k, v). (k, g v)) (Object_entries es)"
proof -
  have "filter (\<lambda>p. P (fst p)) (map (\<lambda>(k, v). (k, g v)) es)
      = map (\<lambda>(k, v). (k, g v)) (filter (\<lambda>p. P (fst p)) es)" for P
    by (induction es) auto
  then show ?thesis
    by (simp add: Object_entries_def sort_key_map_values)
qed

lemma Object_entries_set: "set (Object_entries es) = set es"
  by (auto simp: Object_entries_def)

lemma prepareParams_st_refines:
  assumes "params_at s0 ps" and "next_free s0 \<le> next_free s"
    and "\<forall>b < next_free s0. heap s b = heap s0 b"
    and "prepareParams_st s ps = (s', copy)"
  shows "(case readParams s' (Some copy) of Some es \<Rightarrow> es | None \<Rightarrow> [])
           = prepareParams (readParams s0 ps)"
proof (cases ps)
  case None
  with assms(4) show ?thesis
    by (auto simp: prepareParams_st_def alloc_def readParams_def prepareParams_def
        Object_entries_def)
next
  case (Some a)
  with assms(1) obtain es where
    a: "a < next_free s0" "heap s0 a = Some (ParamsObject es)"
      "list_all (\<lambda>e. value_at s0 (snd e)) es"
    by (auto simp: params_at_def split: option.splits object.splits)
  with assms(3) have "heap s a = Some (ParamsObject es)"
    by simp
  with assms(4) Some have s': "copy = next_free s"
      "heap s' = (heap s)(next_free s \<mapsto> ParamsObject (Object_entries es))"
    by (auto simp: prepareParams_st_def alloc_def)
  have same: "readValue s' v = readValue s0 v" if "value_at s0 v" for v
    using that assms(2,3) by (cases v) (auto simp: value_at_def readValue_def s')
  have "map (\<lambda>(k, v). (k, readValue s' v)) (Object_entries es)
      = map (\<lambda>(k, v). (k, readValue s0 v)) (Object_entries es)"
    using a(3) same by (auto simp: list_all_iff Object_entries_set)
  moreover have "readParams s' (Some copy)
      = Some (map (\<lambda>(k, v). (k, readValue s' v)) (Object_entries es))"
    by (simp add: readParams_def s')
  moreover have "prepareParams (readParams s0 ps)
      = map (\<lambda>(k, v). (k, readValue s0 v)) (Object_entries es)"
    by (simp add: readParams_def Some a prepareParams_def Object_entries_map_values)
  ultimately show ?thesis by simp
qed

lemma alloc_params_payloads:
  assumes "store_ok s"
  shows "readPayloads (fst (alloc s (ParamsObject es))) a = readPayloads s a"
proof -
  let ?s' = "fst (alloc s (ParamsObject es))"
  have heap': "heap ?s' b = (if b = next_free s then Some (ParamsObject es) else heap s b)" for b
    by (simp add: alloc_def)
  from assms have free: "heap s (next_free s) = None"
    by (simp add: store_ok_def)
  have buffer: "readBuffer ?s' b = readBuffer s b" for b
    by (simp add: readBuffer_def heap' free)
  have payload: "readPayload ?s' p = readPayload s p" for p
    by (cases "p = next_free s")
       (auto simp: readPayload_def heap' free buffer split: option.splits object.splits)
  show ?thesis
    by (cases "a = next_free s")
       (auto simp: readPayloads_def heap' free payload split: option.splits object.splits)
qed

text \<open>
  The call on the store ends with the log and the result of the call of the
  functional model on the values read from the store.
\<close>

lemma call_st_refines:
  assumes ok: "store_ok s" and ps: "params_at s ps" and atts: "inputs_at s atts"
    and run: "call_st pf config action requested ps atts s lg = (s', lg', r)"
  shows "call pf config action
           (Some \<lparr>method = requested, params = readParams s ps, attachments = readInputs s atts\<rparr>) lg
         = (lg', r)"
proof -
  obtain s1 lg1 r1 where prep: "prepareAttachments_st pf config s atts lg = (s1, lg1, r1)"
    by (cases "prepareAttachments_st pf config s atts lg")
  from prepareAttachments_st_refines [OF ok atts prep]
  have pure: "prepareAttachments pf config (readInputs s atts) lg
                = (lg1, map_sum id (readPayloads s1) r1)"
    and ok1: "store_ok s1"
    by simp_all
  note f1 = prepareAttachments_st_frame [OF prep]
  show ?thesis
  proof (cases r1)
    case (Inl e)
    with run prep pure show ?thesis
      by (auto simp: call_st_def call_def)
  next
    case (Inr payloads)
    obtain s2 copy where copy: "prepareParams_st s1 ps = (s2, copy)"
      by (cases "prepareParams_st s1 ps")
    from f1 have "next_free s \<le> next_free s1" "\<forall>b < next_free s. heap s1 b = heap s b"
      by simp_all
    from prepareParams_st_refines [OF ps this copy]
    have params: "(case readParams s2 (Some copy) of Some es \<Rightarrow> es | None \<Rightarrow> [])
           = prepareParams (readParams s ps)" .
    from copy have "s2 = fst (alloc s1 (ParamsObject (Object_entries
       (case ps of None \<Rightarrow> []
        | Some a \<Rightarrow> (case heap s1 a of Some (ParamsObject es) \<Rightarrow> es | _ \<Rightarrow> [])))))"
      by (simp add: prepareParams_st_def)
    with alloc_params_payloads [OF ok1] have payloads: "readPayloads s2 payloads = readPayloads s1 payloads"
      by simp
    from run prep Inr copy
    have "sendRequest pf config action requested
            (case readParams s2 (Some copy) of Some es \<Rightarrow> es | None \<Rightarrow> [])
            (readPayloads s2 payloads) lg1 = (lg', r)"
      by (auto simp: call_st_def split: prod.splits)
    with pure Inr params payloads show ?thesis
      by (simp add: call_def)
  qed
qed

lemma readParams_same:
  assumes "params_at s ps" and "same_below (next_free s) s s'"
  shows "readParams s' ps = readParams s ps"
proof (cases ps)
  case None
  then show ?thesis by (simp add: readParams_def)
next
  case (Some a)
  with assms(1) obtain es where
    a: "a < next_free s" "heap s a = Some (ParamsObject es)"
      "list_all (\<lambda>e. value_at s (snd e)) es"
    by (auto simp: params_at_def split: option.splits object.splits)
  have "readValue s' v = readValue s v" if "value_at s v" for v
    using that assms(2) by (cases v) (auto simp: value_at_def readValue_def same_below_def)
  with a have "map (\<lambda>(k, v). (k, readValue s' v)) es = map (\<lambda>(k, v). (k, readValue s v)) es"
    by (auto simp: list_all_iff)
  with a assms(2) Some show ?thesis
    by (simp add: readParams_def same_below_def)
qed

lemma readInputs_same:
  assumes "inputs_at s atts" and "same_below (next_free s) s s'"
  shows "readInputs s' atts = readInputs s atts"
proof (cases atts)
  case None
  then show ?thesis by (simp add: readInputs_def)
next
  case (Some a)
  with assms(1) obtain ds where
    a: "a < next_free s" "heap s a = Some (ObjectArray ds)"
      "list_all (input_at s (next_free s)) ds"
    by (auto simp: inputs_at_def split: option.splits object.splits)
  from inputs_at_same [OF assms(2) a(3)] a assms(2) Some show ?thesis
    by (simp add: readInputs_def same_below_def)
qed

subsection \<open>C10: a call leaves the caller's objects as they are\<close>

text \<open>
  C10. Let the caller's parameter object, its array of attachments, the descriptors and
  their buffers be objects of a store, and let \<^verbatim>\<open>call\<close> run on it. Whether the call
  returns or throws, every object that was in the store when the call began is the same
  afterwards, so the parameters and the descriptors read from the store are the same;
  the call only adds objects (the copy of the parameters, the array of payloads, the
  payloads, the buffers of the downloads), and its assignments go to them. The log and
  the result are those of \<^verbatim>\<open>call\<close> on the values read from the store.
\<close>

theorem call_leaves_inputs_unchanged:
  assumes "call_st pf config action requested ps atts s lg = (s', lg', r)"
    and "store_ok s" and "params_at s ps" and "inputs_at s atts"
  shows "(\<forall>a < next_free s. heap s' a = heap s a)
    \<and> next_free s \<le> next_free s'
    \<and> readParams s' ps = readParams s ps
    \<and> readInputs s' atts = readInputs s atts
    \<and> call pf config action
          (Some \<lparr>method = requested, params = readParams s ps, attachments = readInputs s atts\<rparr>) lg
        = (lg', r)"
proof -
  from call_st_frame [OF assms(1)]
  have frame: "\<forall>a < next_free s. heap s' a = heap s a" and grow: "next_free s \<le> next_free s'"
    by simp_all
  then have same: "same_below (next_free s) s s'"
    by (simp add: same_below_def)
  from frame grow readParams_same [OF assms(3) same] readInputs_same [OF assms(4) same]
    call_st_refines [OF assms(2,3,4,1)]
  show ?thesis by simp
qed

theorem call_leaves_inputs_unchanged_witness:
  "readParams (fst (call_st (example_platform offline) example_config ''post_task'' (Some POST)
                      (Some 0) (Some 2) example_store [])) (Some 0)
   = Some [(''title'', Prim (Str ''Fix it'')), (''todo'', Arr [Str ''a'', Str ''b''])]
   \<and> readInputs (fst (call_st (example_platform offline) example_config ''post_task'' (Some POST)
                      (Some 0) (Some 2) example_store [])) (Some 2)
   = Some [\<lparr>field = ''attach[0]'', filename = ''a.txt'', contentType = Some ''text/plain'',
             data = Some ''hello'', sourceUrl = None\<rparr>]"
proof -
  obtain s' lg' r where run:
    "call_st (example_platform offline) example_config ''post_task'' (Some POST)
       (Some 0) (Some 2) example_store [] = (s', lg', r)"
    by (cases "call_st (example_platform offline) example_config ''post_task'' (Some POST)
       (Some 0) (Some 2) example_store []")
  have ok: "store_ok example_store"
    by (simp add: store_ok_def example_store_def)
  have ps: "params_at example_store (Some 0)"
    by (simp add: params_at_def value_at_def example_store_def)
  have atts: "inputs_at example_store (Some 2)"
    by (simp add: inputs_at_def input_at_def buffer_at_def example_store_def)
  from call_leaves_inputs_unchanged [OF run ok ps atts]
  have "readParams s' (Some 0) = readParams example_store (Some 0)"
    "readInputs s' (Some 2) = readInputs example_store (Some 2)"
    by simp_all
  with run show ?thesis
    by (simp add: readParams_def readInputs_def readInput_def readValue_def readBuffer_def
        example_store_def)
qed

end
